theory Spec2Isabelle
  imports Complex_Main "HOL-Library.Sublist" "HOL-Library.AList"
begin

section \<open>JavaScript values\<close>

text \<open>
  The program is TypeScript/JavaScript. A value of type \<open>any\<close> is modelled by the
  datatype below. Numbers are finite reals (IEEE rounding, NaN and the infinities are
  outside the model). An object is the list of its own properties in insertion order.
  \<open>Native p\<close> is a function supplied by the host runtime, named by its global path
  (for instance \<open>Math.abs\<close>). An absent optional field is \<open>Undefined\<close> for fields
  of type \<open>any\<close> and \<open>None\<close> for typed fields.
\<close>

datatype jsval =
    Undefined
  | Null
  | JBool bool
  | JNum real
  | JStr string
  | JArr "jsval list"
  | JObj "(string \<times> jsval) list"
  | Native string

text \<open>\<open>Boolean(v)\<close>, also the test of \<open>if (v)\<close>, \<open>!v\<close> and \<open>v || d\<close>.\<close>

fun js_truthy :: "jsval \<Rightarrow> bool" where
  "js_truthy Undefined = False"
| "js_truthy Null = False"
| "js_truthy (JBool b) = b"
| "js_truthy (JNum r) = (r \<noteq> 0)"
| "js_truthy (JStr s) = (s \<noteq> [])"
| "js_truthy (JArr xs) = True"
| "js_truthy (JObj ps) = True"
| "js_truthy (Native p) = True"

fun js_typeof :: "jsval \<Rightarrow> string" where
  "js_typeof Undefined = ''undefined''"
| "js_typeof Null = ''object''"
| "js_typeof (JBool b) = ''boolean''"
| "js_typeof (JNum r) = ''number''"
| "js_typeof (JStr s) = ''string''"
| "js_typeof (JArr xs) = ''object''"
| "js_typeof (JObj ps) = ''object''"
| "js_typeof (Native p) = ''function''"

text \<open>
  \<open>a === b\<close>. Primitives compare by value. Two composite values met by the program
  come from different allocations (a document, an input record, a relation), so they
  are never the same reference.
\<close>

definition js_strict_eq :: "jsval \<Rightarrow> jsval \<Rightarrow> bool" where
  "js_strict_eq a b =
     (case a of
        JArr xs \<Rightarrow> False
      | JObj ps \<Rightarrow> False
      | _ \<Rightarrow> a = b)"

text \<open>Property read \<open>o[k]\<close> / \<open>o.k\<close> on a plain object: \<open>undefined\<close> when absent.\<close>

definition js_get :: "(string \<times> jsval) list \<Rightarrow> string \<Rightarrow> jsval" where
  "js_get ps k = (case map_of ps k of None \<Rightarrow> Undefined | Some v \<Rightarrow> v)"

text \<open>\<open>a || b\<close> on values.\<close>

definition js_or :: "jsval \<Rightarrow> jsval \<Rightarrow> jsval" where
  "js_or a b = (if js_truthy a then a else b)"

text \<open>
  A JavaScript \<open>Map\<close> keeps insertion order; \<open>set\<close> on a present key replaces the
  value in place and on a new key appends. This is \<open>AList.update\<close>; \<open>get\<close> is
  \<open>map_of\<close>.
\<close>

definition map_get_list :: "(string \<times> 'a list) list \<Rightarrow> string \<Rightarrow> 'a list" where
  \<comment> \<open>\<open>m.get(k) || []\<close>\<close>
  "map_get_list m k = (case map_of m k of None \<Rightarrow> [] | Some xs \<Rightarrow> xs)"

section \<open>Data model (FormTypes)\<close>

datatype NodeType = Concept | Condition | Action | Event | Formula | Custom

datatype NodeState = Active | Inactive | Pending | Completed | Failed

datatype RelationType = Causes | Triggers | Blocks | Contains | Depends_on | Influences | CustomRel

text \<open>
  The mode of an execution is a string. The three that the program knows are
  constructors of their own; \<open>UnknownMode s\<close> is any other string \<open>s\<close>, which the
  schema refuses in a document but which the \<open>config\<close> argument of \<open>execute\<close> can
  carry, as that argument is not validated.
\<close>

datatype ExecutionMode = Sequential | Parallel | Adaptive | UnknownMode string

definition mode_or :: "ExecutionMode option \<Rightarrow> ExecutionMode \<Rightarrow> ExecutionMode" where
  \<comment> \<open>\<open>m || d\<close>: the empty string is falsy\<close>
  "mode_or m d = (case m of None \<Rightarrow> d | Some (UnknownMode []) \<Rightarrow> d | Some v \<Rightarrow> v)"

record NodeData =
  d_value :: jsval
  d_confidence :: "real option"
  d_weight :: "real option"
  d_parameters :: "(string \<times> jsval) list option"
  d_state :: "NodeState option"

record FormNode =
  n_id :: string
  n_type :: NodeType
  n_label :: string
  n_data :: NodeData
  n_custom_type :: "string option"
  n_extensions :: "(string \<times> jsval) list option"

record RelationCondition =
  c_field :: string
  c_operator :: string
  c_value :: jsval

record FormRelation =
  r_id :: string
  r_type :: RelationType
  r_source :: string
  r_target :: string
  r_strength :: "real option"
  r_bidirectional :: "bool option"
  r_conditions :: "RelationCondition list option"
  r_extensions :: "(string \<times> jsval) list option"

record ExecutionConfig =
  entry_points :: "string list option"
  exit_points :: "string list option"
  max_iterations :: "int option"
  timeout :: "int option"
  mode :: "ExecutionMode option"

record FormFile =
  f_metadata :: "(string \<times> jsval) list"
  f_nodes :: "FormNode list"
  f_relations :: "FormRelation list"
  f_execution :: "ExecutionConfig option"
  f_extensions :: "(string \<times> jsval) list option"

record FormGraph =
  g_metadata :: "(string \<times> jsval) list"
  g_nodes :: "(string \<times> FormNode) list"
  g_relations :: "(string \<times> FormRelation) list"
  adjacencyList :: "(string \<times> string list) list"
  reverseAdjacencyList :: "(string \<times> string list) list"
  g_execution :: ExecutionConfig
  g_extensions :: "(string \<times> jsval) list"

section \<open>FormCompiler\<close>

subsection \<open>compile: default values\<close>

text \<open>
  \<open>if (!node.data.confidence) node.data.confidence = 1.0\<close>, and the same for the
  weight. The test \<open>!x\<close> on an optional number holds when the field is absent and
  also when it is the number zero.
\<close>

definition not_number :: "real option \<Rightarrow> bool" where
  "not_number x = (case x of None \<Rightarrow> True | Some r \<Rightarrow> r = 0)"

definition compile_node :: "FormNode \<Rightarrow> FormNode" where
  "compile_node node =
     (let d = n_data node;
          d1 = (if not_number (d_confidence d) then d\<lparr>d_confidence := Some 1\<rparr> else d);
          d2 = (if not_number (d_weight d1) then d1\<lparr>d_weight := Some 1\<rparr> else d1);
          d3 = (if d_state d2 = None then d2\<lparr>d_state := Some Active\<rparr> else d2)
      in node\<lparr>n_data := d3\<rparr>)"

text \<open>
  \<open>if (relation.strength === undefined) relation.strength = 1.0\<close>, and the same for
  \<open>bidirectional\<close> with \<open>false\<close>.
\<close>

definition compile_relation :: "FormRelation \<Rightarrow> FormRelation" where
  "compile_relation relation =
     (let r1 = (if r_strength relation = None then relation\<lparr>r_strength := Some 1\<rparr> else relation);
          r2 = (if r_bidirectional r1 = None then r1\<lparr>r_bidirectional := Some False\<rparr> else r1)
      in r2)"

subsection \<open>buildAdjacencyLists\<close>

definition adj_push :: "string \<Rightarrow> string \<Rightarrow> (string \<times> string list) list \<Rightarrow> (string \<times> string list) list" where
  \<comment> \<open>\<open>if (!m.has(k)) m.set(k, []); m.get(k).push(v)\<close>\<close>
  "adj_push k v m = AList.update k (map_get_list m k @ [v]) m"

definition add_relation ::
  "FormRelation \<Rightarrow> (string \<times> string list) list \<times> (string \<times> string list) list
     \<Rightarrow> (string \<times> string list) list \<times> (string \<times> string list) list" where
  "add_relation relation acc =
     (let adj1 = adj_push (r_source relation) (r_target relation) (fst acc);
          rev1 = adj_push (r_target relation) (r_source relation) (snd acc)
      in if r_bidirectional relation = Some True
         then (adj_push (r_target relation) (r_source relation) adj1,
               adj_push (r_source relation) (r_target relation) rev1)
         else (adj1, rev1))"

definition buildAdjacencyLists ::
  "FormRelation list \<Rightarrow> (string \<times> string list) list \<times> (string \<times> string list) list" where
  "buildAdjacencyLists relations = fold add_relation relations ([], [])"

subsection \<open>Entry and exit points\<close>

definition inferEntryPoints :: "FormNode list \<Rightarrow> (string \<times> string list) list \<Rightarrow> string list" where
  "inferEntryPoints nodes rev_adj =
     (let entryPoints =
            map n_id (filter (\<lambda>node. map_get_list rev_adj (n_id node) = []
                                 \<or> n_type node = Event
                                 \<or> d_state (n_data node) = Some Active) nodes)
      in case (entryPoints, nodes) of
           ([], first # rest) \<Rightarrow> [n_id first]
         | _ \<Rightarrow> entryPoints)"

definition inferExitPoints :: "FormNode list \<Rightarrow> (string \<times> string list) list \<Rightarrow> string list" where
  "inferExitPoints nodes adj =
     map n_id (filter (\<lambda>node. map_get_list adj (n_id node) = []
                          \<or> (n_type node = Action \<and> length (map_get_list adj (n_id node)) \<le> 1)) nodes)"

subsection \<open>Complexity metrics\<close>

text \<open>
  The breadth-first loop of \<open>calculateMaxDepth\<close>: the queue holds pairs of a node and
  its depth, \<open>seen\<close> is \<open>localVisited\<close>, \<open>lm\<close> is \<open>localMaxDepth\<close>.
\<close>

definition adj_targets :: "(string \<times> string list) list \<Rightarrow> string set" where
  "adj_targets adj = (\<Union>ts \<in> snd ` set adj. set ts)"

function bfs_loop ::
  "(string \<times> string list) list \<Rightarrow> (string \<times> nat) list \<Rightarrow> string list \<Rightarrow> nat \<Rightarrow> nat" where
  "bfs_loop adj [] seen lm = lm"
| "bfs_loop adj ((nodeId, depth) # queue) seen lm =
     (if nodeId \<in> set seen then bfs_loop adj queue seen lm
      else bfs_loop adj
             (queue @ map (\<lambda>neighbor. (neighbor, depth + 1))
                          (filter (\<lambda>neighbor. neighbor \<notin> set (nodeId # seen)) (map_get_list adj nodeId)))
             (nodeId # seen) (max lm depth))"
  by pat_completeness auto

lemma map_get_list_targets: "set (map_get_list adj k) \<subseteq> adj_targets adj"
proof (cases "map_of adj k")
  case None
  then show ?thesis by (simp add: map_get_list_def)
next
  case (Some ts)
  then have "(k, ts) \<in> set adj" by (rule map_of_SomeD)
  then have "ts \<in> snd ` set adj" by force
  then show ?thesis using Some by (auto simp: map_get_list_def adj_targets_def)
qed

lemma finite_adj_targets: "finite (adj_targets adj)"
  by (simp add: adj_targets_def)

termination bfs_loop
proof (relation "measures [\<lambda>(adj, queue, seen, lm). card ((adj_targets adj \<union> fst ` set queue) - set seen),
                           \<lambda>(adj, queue, seen, lm). length queue]", goal_cases)
  case 1
  show ?case by simp
next
  case (2 adj nodeId depth queue seen lm)
  have "(adj_targets adj \<union> fst ` set queue) - set seen
          \<subseteq> (adj_targets adj \<union> fst ` set ((nodeId, depth) # queue)) - set seen"
    by auto
  moreover have "finite ((adj_targets adj \<union> fst ` set ((nodeId, depth) # queue)) - set seen)"
    by (simp add: finite_adj_targets)
  ultimately have "card ((adj_targets adj \<union> fst ` set queue) - set seen)
          \<le> card ((adj_targets adj \<union> fst ` set ((nodeId, depth) # queue)) - set seen)"
    by (rule card_mono[rotated])
  then show ?case by auto
next
  case (3 adj nodeId depth queue seen lm)
  let ?new = "map (\<lambda>neighbor. (neighbor, depth + 1))
                (filter (\<lambda>neighbor. neighbor \<notin> set (nodeId # seen)) (map_get_list adj nodeId))"
  let ?A = "(adj_targets adj \<union> fst ` set (queue @ ?new)) - set (nodeId # seen)"
  let ?B = "(adj_targets adj \<union> fst ` set ((nodeId, depth) # queue)) - set seen"
  have sub: "fst ` set ?new \<subseteq> adj_targets adj"
    using map_get_list_targets[of adj nodeId] by auto
  have "?A \<subseteq> ?B - {nodeId}" using sub by auto
  moreover have "nodeId \<in> ?B" using 3 by simp
  ultimately have "?A \<subset> ?B" by blast
  moreover have "finite ?B" by (simp add: finite_adj_targets)
  ultimately have "card ?A < card ?B" by (rule psubset_card_mono[rotated])
  then show ?case by simp
qed

definition calculateMaxDepth :: "(string \<times> string list) list \<Rightarrow> nat" where
  \<comment> \<open>the outer \<open>visited\<close> set only ever receives start nodes, and the keys of a Map are
      distinct, so the breadth-first search is run from every key\<close>
  "calculateMaxDepth adj = fold (\<lambda>nodeId maxDepth. max maxDepth (bfs_loop adj [(nodeId, 0)] [] 0)) (map fst adj) 0"

text \<open>
  The depth-first search of \<open>estimateCycleCount\<close>. The state is
  \<open>(visited, recursionStack, cycleCount)\<close>. The recursion of the source is bounded here
  by a fuel argument; \<open>None\<close> means the fuel ran out.
\<close>

type_synonym cc_state = "string list \<times> string list \<times> nat"

fun cc_dfs :: "nat \<Rightarrow> (string \<times> string list) list \<Rightarrow> string \<Rightarrow> cc_state \<Rightarrow> cc_state option"
and cc_neighbors :: "nat \<Rightarrow> (string \<times> string list) list \<Rightarrow> string list \<Rightarrow> cc_state \<Rightarrow> cc_state option"
where
  "cc_dfs 0 adj nodeId s = None"
| "cc_dfs (Suc k) adj nodeId (visited, stack, cnt) =
     (case cc_neighbors k adj (map_get_list adj nodeId) (nodeId # visited, nodeId # stack, cnt) of
        None \<Rightarrow> None
      | Some (visited', stack', cnt') \<Rightarrow> Some (visited', removeAll nodeId stack', cnt'))"
| "cc_neighbors k adj [] s = Some s"
| "cc_neighbors k adj (neighbor # rest) (visited, stack, cnt) =
     (if neighbor \<notin> set visited then
        (case cc_dfs k adj neighbor (visited, stack, cnt) of
           None \<Rightarrow> None
         | Some s' \<Rightarrow> cc_neighbors k adj rest s')
      else if neighbor \<in> set stack then cc_neighbors k adj rest (visited, stack, cnt + 1)
      else cc_neighbors k adj rest (visited, stack, cnt))"

definition cc_fuel :: "(string \<times> string list) list \<Rightarrow> nat" where
  \<comment> \<open>more than the number of different identifiers in the adjacency list\<close>
  "cc_fuel adj = Suc (length adj + length (concat (map snd adj)))"

definition estimateCycleCount :: "(string \<times> string list) list \<Rightarrow> nat option" where
  "estimateCycleCount adj =
     map_option (\<lambda>(visited, stack, cnt). cnt)
       (fold (\<lambda>nodeId acc.
                case acc of
                  None \<Rightarrow> None
                | Some (visited, stack, cnt) \<Rightarrow>
                    if nodeId \<notin> set visited then cc_dfs (cc_fuel adj) adj nodeId (visited, stack, cnt)
                    else Some (visited, stack, cnt))
             (map fst adj) (Some ([], [], 0)))"

definition avgBranching :: "(string \<times> string list) list \<Rightarrow> real" where
  "avgBranching adj =
     (if adj = [] then 0
      else real (sum_list (map (\<lambda>(k, targets). length targets) adj)) / real (length adj))"

definition calculateComplexity :: "(string \<times> string list) list \<Rightarrow> jsval option" where
  "calculateComplexity adj =
     map_option (\<lambda>cycleCount.
         JObj [(''maxDepth'', JNum (real (calculateMaxDepth adj))),
               (''avgBranching'', JNum (avgBranching adj)),
               (''cycleCount'', JNum (real cycleCount))])
       (estimateCycleCount adj)"

subsection \<open>compile\<close>

text \<open>
  \<open>timestamp\<close> stands for \<open>new Date().toISOString()\<close>. The deep copy of the document is
  the value semantics of HOL. The result is \<open>None\<close> only if the cycle count ran out of
  fuel.
\<close>

definition int_or :: "int option \<Rightarrow> int \<Rightarrow> int" where
  \<comment> \<open>\<open>x || d\<close> on an optional number\<close>
  "int_or x d = (case x of None \<Rightarrow> d | Some n \<Rightarrow> if n = 0 then d else n)"

definition compile :: "string \<Rightarrow> FormFile \<Rightarrow> FormGraph option" where
  "compile timestamp formFile =
     (let form_nodes = map compile_node (f_nodes formFile);
          nodes = fold (\<lambda>node m. AList.update (n_id node) node m) form_nodes [];
          form_relations = map compile_relation (f_relations formFile);
          relations = fold (\<lambda>relation m. AList.update (r_id relation) relation m) form_relations [];
          lists = buildAdjacencyLists form_relations;
          ex = f_execution formFile;
          execution = \<lparr>
            entry_points = Some (case Option.bind ex entry_points of
                                   Some ps \<Rightarrow> ps
                                 | None \<Rightarrow> inferEntryPoints form_nodes (snd lists)),
            exit_points = Some (case Option.bind ex exit_points of
                                  Some ps \<Rightarrow> ps
                                | None \<Rightarrow> inferExitPoints form_nodes (fst lists)),
            max_iterations = Some (int_or (Option.bind ex max_iterations) 1000),
            timeout = Some (int_or (Option.bind ex timeout) 30000),
            mode = Some (mode_or (Option.bind ex mode) Adaptive) \<rparr>
      in map_option (\<lambda>complexity.
           \<lparr> g_metadata = f_metadata formFile,
             g_nodes = nodes,
             g_relations = relations,
             adjacencyList = fst lists,
             reverseAdjacencyList = snd lists,
             g_execution = execution,
             g_extensions =
               AList.update ''compilation''
                 (JObj [(''timestamp'', JStr timestamp),
                        (''nodeCount'', JNum (real (length nodes))),
                        (''relationCount'', JNum (real (length relations))),
                        (''complexity'', complexity)])
                 (case f_extensions formFile of None \<Rightarrow> [] | Some e \<Rightarrow> e) \<rparr>)
         (calculateComplexity (fst lists)))"

subsection \<open>Optimization\<close>

datatype OptimizationMode = Speed | Memory | Balanced

definition findRelation :: "FormGraph \<Rightarrow> string \<Rightarrow> string \<Rightarrow> FormRelation option" where
  \<comment> \<open>the first relation, in the order of the relation map, from \<open>sourceId\<close> to \<open>targetId\<close>\<close>
  "findRelation graph sourceId targetId =
     find (\<lambda>r. r_source r = sourceId \<and> r_target r = targetId) (map snd (g_relations graph))"

definition strength_or_one :: "FormRelation option \<Rightarrow> real" where
  \<comment> \<open>\<open>relation?.strength || 1.0\<close>: a missing relation, a missing strength and the
      strength zero all give 1\<close>
  "strength_or_one relation =
     (case relation of
        None \<Rightarrow> 1
      | Some r \<Rightarrow> (case r_strength r of None \<Rightarrow> 1 | Some s \<Rightarrow> if s = 0 then 1 else s))"

definition optimization_tag :: "string \<Rightarrow> string \<Rightarrow> jsval" where
  "optimization_tag type timestamp =
     JObj [(''type'', JStr type), (''applied'', JBool True), (''timestamp'', JStr timestamp)]"

text \<open>
  \<open>targetData.sort((a, b) => b.strength - a.strength)\<close> is a stable sort by descending
  strength (the sort of the language is stable since ECMAScript 2019); \<open>sort_key\<close>
  is a stable insertion sort.
\<close>

definition optimizeForSpeed :: "string \<Rightarrow> FormGraph \<Rightarrow> FormGraph" where
  "optimizeForSpeed timestamp graph =
     graph\<lparr> adjacencyList :=
              map (\<lambda>(sourceId, targets).
                     (sourceId, sort_key (\<lambda>targetId. - strength_or_one (findRelation graph sourceId targetId)) targets))
                  (adjacencyList graph),
            g_extensions := AList.update ''optimization'' (optimization_tag ''speed'' timestamp) (g_extensions graph) \<rparr>"

definition strip_node_defaults :: "FormNode \<Rightarrow> FormNode" where
  "strip_node_defaults node =
     (let d = n_data node;
          d1 = (if d_confidence d = Some 1 then d\<lparr>d_confidence := None\<rparr> else d);
          d2 = (if d_weight d1 = Some 1 then d1\<lparr>d_weight := None\<rparr> else d1);
          d3 = (if d_state d2 = Some Active then d2\<lparr>d_state := None\<rparr> else d2)
      in node\<lparr>n_data := d3\<rparr>)"

definition strip_relation_defaults :: "FormRelation \<Rightarrow> FormRelation" where
  "strip_relation_defaults relation =
     (let r1 = (if r_strength relation = Some 1 then relation\<lparr>r_strength := None\<rparr> else relation);
          r2 = (if r_bidirectional r1 = Some False then r1\<lparr>r_bidirectional := None\<rparr> else r1)
      in r2)"

definition optimizeForMemory :: "string \<Rightarrow> FormGraph \<Rightarrow> FormGraph" where
  "optimizeForMemory timestamp graph =
     graph\<lparr> g_nodes := map (\<lambda>(k, node). (k, strip_node_defaults node)) (g_nodes graph),
            g_relations := map (\<lambda>(k, relation). (k, strip_relation_defaults relation)) (g_relations graph),
            g_extensions := AList.update ''optimization'' (optimization_tag ''memory'' timestamp) (g_extensions graph) \<rparr>"

definition strip_confidence :: "FormNode \<Rightarrow> FormNode" where
  "strip_confidence node =
     (if d_confidence (n_data node) = Some 1 \<and> n_type node \<noteq> Condition \<and> n_type node \<noteq> Formula
      then node\<lparr>n_data := (n_data node)\<lparr>d_confidence := None\<rparr>\<rparr>
      else node)"

text \<open>
  \<open>optimizeBalanced\<close> calls \<open>optimizeForSpeed\<close> first, whose tag it then overwrites;
  the timestamp of that first tag is therefore immaterial and the same one is passed.
\<close>

definition optimizeBalanced :: "string \<Rightarrow> FormGraph \<Rightarrow> FormGraph" where
  "optimizeBalanced timestamp graph =
     (let g1 = optimizeForSpeed timestamp graph
      in g1\<lparr> g_nodes := map (\<lambda>(k, node). (k, strip_confidence node)) (g_nodes g1),
              g_extensions := AList.update ''optimization'' (optimization_tag ''balanced'' timestamp) (g_extensions g1) \<rparr>)"

definition optimizeForExecution :: "string \<Rightarrow> FormGraph \<Rightarrow> OptimizationMode \<Rightarrow> FormGraph" where
  "optimizeForExecution timestamp graph m =
     (case m of
        Speed \<Rightarrow> optimizeForSpeed timestamp graph
      | Memory \<Rightarrow> optimizeForMemory timestamp graph
      | Balanced \<Rightarrow> optimizeBalanced timestamp graph)"

section \<open>FormValidator\<close>

datatype ErrorType = SchemaError | ReferenceError | CycleError | LogicError

datatype Severity = SevError | SevWarning

record ValidationError =
  e_type :: ErrorType
  e_message :: string
  e_severity :: Severity
  e_path :: "string option"
  e_nodeId :: "string option"
  e_relationId :: "string option"

record ValidationMetadata =
  nodeCount :: nat
  relationCount :: nat
  entryPoints :: "string list"
  exitPoints :: "string list"

text \<open>
  The \<open>warnings\<close> of a result (\<open>generateWarnings\<close>) play no part in \<open>valid\<close> or
  \<open>errors\<close> and are not modelled.
\<close>

record ValidationResult =
  valid :: bool
  errors :: "ValidationError list"
  metadata :: ValidationMetadata

definition mk_error :: "ErrorType \<Rightarrow> string \<Rightarrow> string option \<Rightarrow> string option \<Rightarrow> ValidationError" where
  "mk_error t msg node rel =
     \<lparr> e_type = t, e_message = msg, e_severity = SevError, e_path = None,
       e_nodeId = node, e_relationId = rel \<rparr>"

subsection \<open>validateReferences\<close>

fun duplicates :: "string list \<Rightarrow> string list \<Rightarrow> string list" where
  \<comment> \<open>the identifiers met again while \<open>seen\<close> already holds them\<close>
  "duplicates seen [] = []"
| "duplicates seen (x # xs) = (if x \<in> set seen then [x] else []) @ duplicates (x # seen) xs"

definition validateReferences :: "FormFile \<Rightarrow> ValidationError list" where
  "validateReferences form =
     (let nodeIds = set (map n_id (f_nodes form)) in
      map (\<lambda>i. mk_error ReferenceError (''Duplicate node ID: '' @ i) (Some i) None)
          (duplicates [] (map n_id (f_nodes form)))
      @ map (\<lambda>i. mk_error ReferenceError (''Duplicate relation ID: '' @ i) None (Some i))
          (duplicates [] (map r_id (f_relations form)))
      @ concat (map (\<lambda>relation.
            (if r_source relation \<notin> nodeIds
             then [mk_error ReferenceError
                     (''Relation '' @ r_id relation @ '' references non-existent source node: '' @ r_source relation)
                     None (Some (r_id relation))]
             else [])
            @ (if r_target relation \<notin> nodeIds
               then [mk_error ReferenceError
                       (''Relation '' @ r_id relation @ '' references non-existent target node: '' @ r_target relation)
                       None (Some (r_id relation))]
               else []))
          (f_relations form))
      @ (case Option.bind (f_execution form) entry_points of
           None \<Rightarrow> []
         | Some ps \<Rightarrow>
             map (\<lambda>nodeId. mk_error ReferenceError
                    (''Execution entry point references non-existent node: '' @ nodeId) None None)
                 (filter (\<lambda>nodeId. nodeId \<notin> nodeIds) ps))
      @ (case Option.bind (f_execution form) exit_points of
           None \<Rightarrow> []
         | Some ps \<Rightarrow>
             map (\<lambda>nodeId. mk_error ReferenceError
                    (''Execution exit point references non-existent node: '' @ nodeId) None None)
                 (filter (\<lambda>nodeId. nodeId \<notin> nodeIds) ps)))"

subsection \<open>detectCycles\<close>

definition dependency_adjacency :: "FormFile \<Rightarrow> (string \<times> string list) list" where
  "dependency_adjacency form =
     fold (\<lambda>relation adj.
             if r_type relation \<in> {Depends_on, Causes, Triggers}
             then AList.update (r_source relation)
                    (map_get_list adj (r_source relation) @ [r_target relation]) adj
             else adj)
          (f_relations form)
          (fold (\<lambda>node adj. AList.update (n_id node) [] adj) (f_nodes form) [])"

text \<open>
  The state of the search is \<open>(visited, recursionStack, path, cycles)\<close>; the recursion
  is bounded by fuel as for the cycle count.
\<close>

type_synonym dc_state = "string list \<times> string list \<times> string list \<times> string list list"

fun dc_dfs :: "nat \<Rightarrow> (string \<times> string list) list \<Rightarrow> string \<Rightarrow> dc_state \<Rightarrow> dc_state option"
and dc_neighbors :: "nat \<Rightarrow> (string \<times> string list) list \<Rightarrow> string list \<Rightarrow> dc_state \<Rightarrow> dc_state option"
where
  "dc_dfs 0 adj nodeId s = None"
| "dc_dfs (Suc k) adj nodeId (visited, stack, path, cycles) =
     (case dc_neighbors k adj (map_get_list adj nodeId)
             (nodeId # visited, nodeId # stack, path @ [nodeId], cycles) of
        None \<Rightarrow> None
      | Some (visited', stack', path', cycles') \<Rightarrow>
          Some (visited', removeAll nodeId stack', butlast path', cycles'))"
| "dc_neighbors k adj [] s = Some s"
| "dc_neighbors k adj (neighbor # rest) (visited, stack, path, cycles) =
     (if neighbor \<notin> set visited then
        (case dc_dfs k adj neighbor (visited, stack, path, cycles) of
           None \<Rightarrow> None
         | Some s' \<Rightarrow> dc_neighbors k adj rest s')
      else if neighbor \<in> set stack then
        dc_neighbors k adj rest
          (visited, stack, path, cycles @ [dropWhile (\<lambda>x. x \<noteq> neighbor) path @ [neighbor]])
      else dc_neighbors k adj rest (visited, stack, path, cycles))"

definition detectCycles :: "FormFile \<Rightarrow> string list list option" where
  "detectCycles form =
     (let adj = dependency_adjacency form in
      map_option (\<lambda>(visited, stack, path, cycles). cycles)
        (fold (\<lambda>nodeId acc.
                 case acc of
                   None \<Rightarrow> None
                 | Some (visited, stack, path, cycles) \<Rightarrow>
                     if nodeId \<notin> set visited
                     then dc_dfs (cc_fuel adj) adj nodeId (visited, stack, path, cycles)
                     else Some (visited, stack, path, cycles))
              (map n_id (f_nodes form)) (Some ([], [], [], []))))"

subsection \<open>validateFormulaSyntax\<close>

text \<open>
  The argument is \<open>node.data.value\<close>, of type \<open>any\<close>. \<open>for (const char of formula)\<close>
  walks the characters of a string or the elements of an array and throws a TypeError
  on any other value; \<open>formula.includes(func)\<close> is the substring test on a string
  and the membership test on an array.
\<close>

fun paren_scan :: "int \<Rightarrow> jsval list \<Rightarrow> int \<times> bool" where
  \<comment> \<open>the final \<open>parenCount\<close>, and whether it went below zero (the loop then stops)\<close>
  "paren_scan n [] = (n, False)"
| "paren_scan n (c # cs) =
     (let n1 = (if c = JStr ''('' then n + 1 else n);
          n2 = (if c = JStr '')'' then n1 - 1 else n1)
      in if n2 < 0 then (n2, True) else paren_scan n2 cs)"

definition dangerousFunctions :: "string list" where
  "dangerousFunctions = [''eval'', ''exec'', ''import'', ''require'', ''process'', ''fs'']"

definition js_includes :: "jsval \<Rightarrow> string \<Rightarrow> bool" where
  "js_includes formula func =
     (case formula of
        JStr s \<Rightarrow> sublist func s
      | JArr xs \<Rightarrow> JStr func \<in> set xs
      | _ \<Rightarrow> False)"

definition validateFormulaSyntax :: "jsval \<Rightarrow> string \<Rightarrow> string + ValidationError list" where
  "validateFormulaSyntax formula nodeId =
     (case (case formula of
              JStr s \<Rightarrow> Some (map (\<lambda>c. JStr [c]) s)
            | JArr xs \<Rightarrow> Some xs
            | _ \<Rightarrow> None) of
        None \<Rightarrow> Inl ''formula is not iterable''
      | Some items \<Rightarrow>
          (let unbalanced = mk_error LogicError ''Unbalanced parentheses in formula'' (Some nodeId) None;
               scan = paren_scan 0 items
           in Inr ((if snd scan then [unbalanced] else [])
                   @ (if fst scan \<noteq> 0 then [unbalanced] else [])
                   @ map (\<lambda>func. mk_error LogicError
                            (''Potentially dangerous function '' @ [CHR 0x27] @ func @ [CHR 0x27]
                               @ '' detected in formula'')
                            (Some nodeId) None)
                         (filter (js_includes formula) dangerousFunctions))))"

subsection \<open>validateLogicalConsistency and validate\<close>

fun join :: "string \<Rightarrow> string list \<Rightarrow> string" where
  "join sep [] = []"
| "join sep [x] = x"
| "join sep (x # y # ys) = x @ sep @ join sep (y # ys)"

fun formula_errors :: "FormNode list \<Rightarrow> string + ValidationError list" where
  \<comment> \<open>the loop over the nodes; only a formula node with a truthy \<open>data.value\<close> is looked at\<close>
  "formula_errors [] = Inr []"
| "formula_errors (node # nodes) =
     (if n_type node = Formula \<and> js_truthy (d_value (n_data node)) then
        (case validateFormulaSyntax (d_value (n_data node)) (n_id node) of
           Inl err \<Rightarrow> Inl err
         | Inr es \<Rightarrow> (case formula_errors nodes of Inl err \<Rightarrow> Inl err | Inr rest \<Rightarrow> Inr (es @ rest)))
      else formula_errors nodes)"

definition condition_operators :: "string list" where
  "condition_operators = [''eq'', ''neq'', ''gt'', ''lt'', ''gte'', ''lte'', ''contains'']"

definition operator_errors :: "FormRelation list \<Rightarrow> ValidationError list" where
  "operator_errors relations =
     concat (map (\<lambda>relation.
        case r_conditions relation of
          None \<Rightarrow> []
        | Some conds \<Rightarrow>
            map (\<lambda>c. mk_error LogicError (''Invalid condition operator: '' @ c_operator c)
                       None (Some (r_id relation)))
                (filter (\<lambda>c. c_operator c \<notin> set condition_operators) conds))
      relations)"

definition validateLogicalConsistency :: "FormFile \<Rightarrow> string + ValidationError list" where
  "validateLogicalConsistency form =
     (case detectCycles form of
        None \<Rightarrow> Inl ''Maximum call stack size exceeded''
      | Some cycles \<Rightarrow>
          (case formula_errors (f_nodes form) of
             Inl err \<Rightarrow> Inl err
           | Inr formulaErrors \<Rightarrow>
               Inr (map (\<lambda>cycle. mk_error CycleError
                            (''Circular dependency detected: '' @ join '' -> '' cycle) None None) cycles
                    @ formulaErrors
                    @ operator_errors (f_relations form))))"

text \<open>
  The JSON-schema check is made by the Ajv library, which is not part of the repository:
  \<open>ajv\<close> is a parameter, giving \<open>None\<close> when the document passes the schema and the
  converted errors otherwise. An exception that leaves \<open>validate\<close> is \<open>Inl\<close>.
\<close>

definition validate :: "(FormFile \<Rightarrow> ValidationError list option) \<Rightarrow> FormFile \<Rightarrow> string + ValidationResult" where
  "validate ajv formData =
     (case ajv formData of
        Some schemaErrors \<Rightarrow>
          Inr \<lparr> valid = False, errors = schemaErrors,
                metadata = \<lparr> nodeCount = length (f_nodes formData),
                             relationCount = length (f_relations formData),
                             entryPoints = [], exitPoints = [] \<rparr> \<rparr>
      | None \<Rightarrow>
          (case validateLogicalConsistency formData of
             Inl err \<Rightarrow> Inl err
           | Inr logical \<Rightarrow>
               (let errs = validateReferences formData @ logical in
                Inr \<lparr> valid = (filter (\<lambda>e. e_severity e = SevError) errs = []),
                      errors = errs,
                      metadata = \<lparr> nodeCount = length (f_nodes formData),
                                   relationCount = length (f_relations formData),
                                   entryPoints = (case Option.bind (f_execution formData) entry_points of
                                                    None \<Rightarrow> [] | Some ps \<Rightarrow> ps),
                                   exitPoints = (case Option.bind (f_execution formData) exit_points of
                                                   None \<Rightarrow> [] | Some ps \<Rightarrow> ps) \<rparr> \<rparr>)))"

section \<open>FormExecutor: node evaluation\<close>

subsection \<open>The host runtime\<close>

text \<open>
  The executor relies on facilities of the JavaScript host that are not code of the
  repository. They are the fields of \<open>runtime\<close>, and every theorem below holds for
  every runtime unless it says otherwise.
  \<^item> \<open>date_now k\<close> is what \<open>Date.now()\<close> returns at the \<open>k\<close>-th interaction with the
    host; the executor counts its interactions in \<open>ticks\<close>.
  \<^item> \<open>new_function k keys values body\<close> is \<open>new Function(...keys, body)(...values)\<close>
    run at interaction \<open>k\<close>: \<open>Inl\<close> the message of the exception it throws, \<open>Inr\<close>
    the value it returns. The index lets the result depend on hidden state of the host.
  \<^item> \<open>json_text\<close> is \<open>JSON.stringify\<close> on values that have a JSON text.
  \<^item> \<open>to_string\<close> is \<open>String(v)\<close>, also used by template literals.
  \<^item> \<open>relational\<close> is the comparison by \<open><\<close>, \<open>>\<close>, \<open><=\<close>, \<open>>=\<close> and \<open>arithmetic\<close>
    the operators \<open>*\<close>, \<open>+\<close>, \<open>-\<close> on operands that are not both numbers (where the
    language coerces).
  \<^item> \<open>eval_logic\<close> is the body of \<open>evaluateLogicExpression\<close>, which is built from
    \<open>RegExp\<close> replacement and \<open>Function\<close>: a function of the logic parameter and
    of the truthiness of every node's value, in the order of the node map.
  \<^item> \<open>call_function f\<close> calls the value \<open>f\<close> as a custom evaluator; it is taken to
    read the state map without writing to it.
\<close>

record runtime =
  date_now :: "nat \<Rightarrow> int"
  new_function :: "nat \<Rightarrow> string list \<Rightarrow> jsval list \<Rightarrow> string \<Rightarrow> string + jsval"
  json_text :: "jsval \<Rightarrow> string"
  to_string :: "jsval \<Rightarrow> string"
  relational :: "string \<Rightarrow> jsval \<Rightarrow> jsval \<Rightarrow> bool"
  arithmetic :: "string \<Rightarrow> jsval \<Rightarrow> jsval \<Rightarrow> jsval"
  eval_logic :: "jsval \<Rightarrow> (string \<times> bool) list \<Rightarrow> jsval"
  call_function :: "jsval \<Rightarrow> nat \<Rightarrow> FormNode \<Rightarrow> FormGraph \<Rightarrow> (string \<times> jsval) list \<Rightarrow> string + jsval"

definition js_String :: "runtime \<Rightarrow> jsval \<Rightarrow> string" where
  "js_String rt v = (case v of JStr s \<Rightarrow> s | _ \<Rightarrow> to_string rt v)"

definition js_rel :: "runtime \<Rightarrow> string \<Rightarrow> jsval \<Rightarrow> jsval \<Rightarrow> bool" where
  "js_rel rt op a b =
     (case (a, b) of
        (JNum x, JNum y) \<Rightarrow>
          (if op = ''>'' then x > y else if op = ''<'' then x < y
           else if op = ''>='' then x \<ge> y else if op = ''<='' then x \<le> y
           else relational rt op a b)
      | _ \<Rightarrow> relational rt op a b)"

definition js_arith :: "runtime \<Rightarrow> string \<Rightarrow> jsval \<Rightarrow> jsval \<Rightarrow> jsval" where
  "js_arith rt op a b =
     (case (a, b) of
        (JNum x, JNum y) \<Rightarrow>
          (if op = ''*'' then JNum (x * y) else if op = ''+'' then JNum (x + y)
           else if op = ''-'' then JNum (x - y) else arithmetic rt op a b)
      | _ \<Rightarrow> arithmetic rt op a b)"

text \<open>
  \<open>JSON.stringify(v)\<close> is \<open>undefined\<close> for \<open>undefined\<close> and for a function, and
  reading \<open>.length\<close> of it throws a TypeError with the message below. Wherever an
  exception is a value of the model, it is its \<open>message\<close>, without the name of the
  exception: that is what the \<open>catch\<close> blocks of the program record.
\<close>

definition length_of_undefined :: string where
  "length_of_undefined =
     ''Cannot read properties of undefined (reading '' @ [CHR 0x27] @ ''length'' @ [CHR 0x27] @ '')''"

definition json_stringify :: "runtime \<Rightarrow> jsval \<Rightarrow> string option" where
  "json_stringify rt v = (case v of Undefined \<Rightarrow> None | Native p \<Rightarrow> None | _ \<Rightarrow> Some (json_text rt v))"

subsection \<open>Reading the graph and the state\<close>

type_synonym state_map = "(string \<times> jsval) list"

definition node_parameters :: "FormNode \<Rightarrow> (string \<times> jsval) list" where
  \<comment> \<open>\<open>node.data.parameters || {}\<close>\<close>
  "node_parameters node = (case d_parameters (n_data node) of None \<Rightarrow> [] | Some ps \<Rightarrow> ps)"

definition incomingNodes :: "FormGraph \<Rightarrow> string \<Rightarrow> string list" where
  \<comment> \<open>\<open>graph.reverseAdjacencyList.get(id) || []\<close>\<close>
  "incomingNodes graph nodeId = map_get_list (reverseAdjacencyList graph) nodeId"

definition state_get_key :: "state_map \<Rightarrow> jsval \<Rightarrow> jsval" where
  \<comment> \<open>\<open>executionState.get(k)\<close> for a key of type \<open>any\<close>: the keys of the map are strings\<close>
  "state_get_key st k = (case k of JStr s \<Rightarrow> js_get st s | _ \<Rightarrow> Undefined)"

subsection \<open>Concept nodes\<close>

definition evaluateConcept :: "FormGraph \<Rightarrow> state_map \<Rightarrow> FormNode \<Rightarrow> jsval" where
  "evaluateConcept graph st node =
     (let incoming = incomingNodes graph (n_id node) in
      if incoming = [] then
        (if d_value (n_data node) \<noteq> Undefined then d_value (n_data node) else js_get st (n_id node))
      else
        (let totals = fold (\<lambda>sourceId (totalWeight, weightedSum).
                            let weight = strength_or_one (findRelation graph sourceId (n_id node))
                            in case js_get st sourceId of
                                 JNum sourceValue \<Rightarrow> (totalWeight + weight, weightedSum + sourceValue * weight)
                               | _ \<Rightarrow> (totalWeight, weightedSum))
                         incoming (0, 0)
         in if fst totals > 0 then JNum (snd totals / fst totals) else js_get st (n_id node)))"

subsection \<open>Condition nodes\<close>

definition evaluateRelationCondition :: "runtime \<Rightarrow> jsval \<Rightarrow> RelationCondition \<Rightarrow> bool" where
  "evaluateRelationCondition rt v c =
     (if c_operator c = ''eq'' then js_strict_eq v (c_value c)
      else if c_operator c = ''neq'' then \<not> js_strict_eq v (c_value c)
      else if c_operator c = ''gt'' then js_rel rt ''>'' v (c_value c)
      else if c_operator c = ''lt'' then js_rel rt ''<'' v (c_value c)
      else if c_operator c = ''gte'' then js_rel rt ''>='' v (c_value c)
      else if c_operator c = ''lte'' then js_rel rt ''<='' v (c_value c)
      else if c_operator c = ''contains'' then sublist (js_String rt (c_value c)) (js_String rt v)
      else False)"

definition evaluateRelationConditions :: "runtime \<Rightarrow> RelationCondition list \<Rightarrow> jsval \<Rightarrow> bool" where
  "evaluateRelationConditions rt conds v = list_all (evaluateRelationCondition rt v) conds"

definition evaluateLogicExpression :: "runtime \<Rightarrow> jsval \<Rightarrow> FormGraph \<Rightarrow> state_map \<Rightarrow> jsval" where
  "evaluateLogicExpression rt logic graph st =
     eval_logic rt logic (map (\<lambda>(nodeId, node). (nodeId, js_truthy (js_get st nodeId))) (g_nodes graph))"

definition evaluateCondition :: "runtime \<Rightarrow> FormGraph \<Rightarrow> state_map \<Rightarrow> FormNode \<Rightarrow> jsval" where
  "evaluateCondition rt graph st node =
     (let logic = js_get (node_parameters node) ''logic'';
          incoming = incomingNodes graph (n_id node)
      in if js_truthy logic then evaluateLogicExpression rt logic graph st
         else if incoming = [] then JBool (js_truthy (d_value (n_data node)))
         else JBool (list_ex (\<lambda>sourceId.
                        case Option.bind (findRelation graph sourceId (n_id node)) r_conditions of
                          Some conds \<Rightarrow> evaluateRelationConditions rt conds (js_get st sourceId)
                        | None \<Rightarrow> js_truthy (js_get st sourceId))
                      incoming))"

subsection \<open>Action nodes\<close>

text \<open>
  \<open>inputs.reduce\<close> exists on arrays only: any other truthy \<open>parameters.inputs\<close>
  throws a TypeError, whose message the scheduler records as a node error.
\<close>

definition operation_inputs :: "(string \<times> jsval) list \<Rightarrow> string + jsval list" where
  "operation_inputs parameters =
     (let inputs = js_get parameters ''inputs'' in
      if \<not> js_truthy inputs then Inr []
      else case inputs of JArr xs \<Rightarrow> Inr xs | _ \<Rightarrow> Inl ''inputs.reduce is not a function'')"

definition sumInputs :: "(string \<times> jsval) list \<Rightarrow> state_map \<Rightarrow> string + jsval" where
  "sumInputs parameters st =
     map_sum id (\<lambda>inputs. JNum (fold (\<lambda>nodeId total.
                    total + (case state_get_key st nodeId of JNum v \<Rightarrow> v | _ \<Rightarrow> 0)) inputs 0))
       (operation_inputs parameters)"

definition multiplyInputs :: "(string \<times> jsval) list \<Rightarrow> state_map \<Rightarrow> string + jsval" where
  "multiplyInputs parameters st =
     map_sum id (\<lambda>inputs. JNum (fold (\<lambda>nodeId product.
                    product * (case state_get_key st nodeId of JNum v \<Rightarrow> v | _ \<Rightarrow> 1)) inputs 1))
       (operation_inputs parameters)"

definition transformValue :: "runtime \<Rightarrow> (string \<times> jsval) list \<Rightarrow> jsval" where
  "transformValue rt parameters =
     (let transform = js_get parameters ''transform'';
          input = js_get parameters ''input''
      in if transform = JStr ''negate'' then JBool (\<not> js_truthy input)
         else if transform = JStr ''double'' then js_arith rt ''*'' input (JNum 2)
         else if transform = JStr ''increment'' then js_arith rt ''+'' input (JNum 1)
         else input)"

definition executeOperation :: "runtime \<Rightarrow> jsval \<Rightarrow> (string \<times> jsval) list \<Rightarrow> state_map \<Rightarrow> string + jsval" where
  "executeOperation rt operation parameters st =
     (if operation = JStr ''sum'' then sumInputs parameters st
      else if operation = JStr ''multiply'' then multiplyInputs parameters st
      else if operation = JStr ''transform'' then Inr (transformValue rt parameters)
      else Inr (JBool True))"

definition evaluateAction :: "runtime \<Rightarrow> FormGraph \<Rightarrow> state_map \<Rightarrow> FormNode \<Rightarrow> string + jsval" where
  "evaluateAction rt graph st node =
     (let parameters = node_parameters node;
          prerequisitesMet = list_all (\<lambda>sourceId. js_truthy (js_get st sourceId)) (incomingNodes graph (n_id node))
      in if \<not> prerequisitesMet then Inr (js_get st (n_id node))
         else if js_truthy (js_get parameters ''operation'')
         then executeOperation rt (js_get parameters ''operation'') parameters st
         else Inr (JBool True))"

subsection \<open>Event nodes\<close>

definition evaluateTimeTrigger :: "runtime \<Rightarrow> (string \<times> jsval) list \<Rightarrow> nat \<Rightarrow> jsval" where
  "evaluateTimeTrigger rt parameters t =
     (let interval = js_or (js_get parameters ''interval'') (JNum 1000);
          lastTrigger = js_or (js_get parameters ''lastTrigger'') (JNum 0);
          now = JNum (of_int (date_now rt t))
      in JBool (js_rel rt ''>='' (js_arith rt ''-'' now lastTrigger) interval))"

definition evaluateStateTrigger :: "(string \<times> jsval) list \<Rightarrow> state_map \<Rightarrow> jsval" where
  "evaluateStateTrigger parameters st =
     (let watchedNode = js_get parameters ''watchedNode'';
          triggerValue = js_get parameters ''triggerValue''
      in if \<not> js_truthy watchedNode then JBool False
         else JBool (js_strict_eq (state_get_key st watchedNode) triggerValue))"

definition evaluateEvent :: "runtime \<Rightarrow> state_map \<Rightarrow> nat \<Rightarrow> FormNode \<Rightarrow> jsval \<times> nat" where
  "evaluateEvent rt st t node =
     (let parameters = node_parameters node in
      if js_get parameters ''triggerType'' = JStr ''time'' then (evaluateTimeTrigger rt parameters t, Suc t)
      else if js_get parameters ''triggerType'' = JStr ''state'' then (evaluateStateTrigger parameters st, t)
      else (js_get st (n_id node), t))"

subsection \<open>Formula nodes and the FormulaEvaluator\<close>

record FormulaSandbox =
  allowedFunctions :: jsval
  timeoutMs :: jsval
  memoryLimitMb :: jsval

record FormulaContext =
  ctx_variables :: "(string \<times> jsval) list"
  ctx_functions :: "(string \<times> jsval) list"
  ctx_sandbox :: FormulaSandbox

record FormulaResult =
  fr_value :: jsval
  fr_success :: bool
  fr_error :: "string option"
  fr_executionTime :: int
  fr_memoryUsed :: nat

definition object_spread :: "(string \<times> jsval) list \<Rightarrow> (string \<times> jsval) list \<Rightarrow> (string \<times> jsval) list" where
  \<comment> \<open>\<open>{...obj, ...props}\<close>: a key met again keeps its place and takes the later value\<close>
  "object_spread obj props = fold (\<lambda>(k, v) acc. AList.update k v acc) props obj"

definition Math_object :: jsval where
  \<comment> \<open>the global \<open>Math\<close> namespace of the host, with its function members\<close>
  "Math_object =
     JObj (map (\<lambda>name. (name, Native (''Math.'' @ name)))
       [''abs'', ''acos'', ''asin'', ''atan'', ''atan2'', ''ceil'', ''cos'', ''exp'', ''floor'',
        ''log'', ''max'', ''min'', ''pow'', ''random'', ''round'', ''sin'', ''sqrt'', ''tan''])"

definition getBuiltinFunctions :: "(string \<times> jsval) list" where
  "getBuiltinFunctions =
     (''Math'', Math_object) #
     map (\<lambda>name. (name, Native (''Math.'' @ name)))
       [''abs'', ''max'', ''min'', ''sqrt'', ''pow'', ''sin'', ''cos'', ''tan'', ''log'', ''exp'',
        ''floor'', ''ceil'', ''round'']"

definition buildVariableContext :: "FormGraph \<Rightarrow> state_map \<Rightarrow> FormNode \<Rightarrow> (string \<times> jsval) list" where
  "buildVariableContext graph st node =
     fold (\<lambda>depId context. AList.update depId (js_get st depId) context)
          (incomingNodes graph (n_id node))
          [(n_id node, js_get st (n_id node))]"

definition createSandbox :: "FormulaContext \<Rightarrow> (string \<times> jsval) list" where
  "createSandbox context =
     object_spread (object_spread (object_spread [] (ctx_variables context)) (ctx_functions context))
       (map (\<lambda>name. (name, Native name))
          [''parseInt'', ''parseFloat'', ''isNaN'', ''isFinite'', ''String'', ''Number'',
           ''Boolean'', ''Array'', ''Object''])"

definition safe_char :: "char \<Rightarrow> bool" where
  \<comment> \<open>the character class of \<open>safePattern\<close>: letters, digits, underscore, white space and
      \<open>+ - * / ( ) . , [ ]\<close>. The class \<open>\s\<close> holds tab, line feed, vertical tab, form
      feed, carriage return, space and the no-break space U+00A0; its other members lie
      beyond U+00FF, where the characters of the model end.\<close>
  "safe_char c =
     (let n = (of_char c :: nat) in
      (97 \<le> n \<and> n \<le> 122) \<or> (65 \<le> n \<and> n \<le> 90) \<or> (48 \<le> n \<and> n \<le> 57) \<or> c = CHR ''_''
      \<or> c \<in> set [CHR '' '', CHR 0x09, CHR 0x0A, CHR 0x0B, CHR 0x0C, CHR 0x0D, CHR 0xA0]
      \<or> c \<in> set ''+-*/().,[]'')"

definition safePattern :: "string \<Rightarrow> bool" where
  "safePattern s = (s \<noteq> [] \<and> list_all safe_char s)"

definition evaluateExpression ::
  "runtime \<Rightarrow> nat \<Rightarrow> jsval \<Rightarrow> (string \<times> jsval) list \<Rightarrow> (string + jsval) \<times> nat" where
  "evaluateExpression rt t expression context =
     (if \<not> safePattern (js_String rt expression) then (Inl ''Unsafe expression detected'', t)
      else (case new_function rt t (map fst context) (map snd context)
                   (''return '' @ js_String rt expression) of
              Inl msg \<Rightarrow> (Inl (''Expression evaluation failed: '' @ msg), Suc t)
            | Inr v \<Rightarrow> (Inr v, Suc t)))"

definition formula_failure :: "runtime \<Rightarrow> int \<Rightarrow> nat \<Rightarrow> string \<Rightarrow> nat \<Rightarrow> FormulaResult \<times> nat" where
  \<comment> \<open>the \<open>catch\<close> block of \<open>evaluate\<close>\<close>
  "formula_failure rt startTime memoryUsed msg t =
     (\<lparr> fr_value = Null, fr_success = False, fr_error = Some msg,
        fr_executionTime = date_now rt t - startTime, fr_memoryUsed = memoryUsed \<rparr>, Suc t)"

definition evaluate :: "runtime \<Rightarrow> nat \<Rightarrow> jsval \<Rightarrow> FormulaContext \<Rightarrow> FormulaResult \<times> nat" where
  "evaluate rt t expression context =
     (let startTime = date_now rt t;
          sandboxedContext = createSandbox context
      in case evaluateExpression rt (Suc t) expression sandboxedContext of
           (Inl msg, t1) \<Rightarrow> formula_failure rt startTime 0 msg t1
         | (Inr result, t1) \<Rightarrow>
             (let executionTime = date_now rt t1 - startTime in
              case json_stringify rt result of
                None \<Rightarrow> formula_failure rt startTime 0
                          length_of_undefined (Suc t1)
              | Some text \<Rightarrow>
                  (let memoryUsed = length text * 2 in
                   if js_rel rt ''>'' (JNum (of_int executionTime)) (timeoutMs (ctx_sandbox context))
                   then formula_failure rt startTime memoryUsed
                          (''Formula execution timeout: '' @ to_string rt (JNum (of_int executionTime))
                             @ ''ms > '' @ js_String rt (timeoutMs (ctx_sandbox context)) @ ''ms'') (Suc t1)
                   else if js_rel rt ''>'' (JNum (real memoryUsed))
                             (js_arith rt ''*'' (js_arith rt ''*'' (memoryLimitMb (ctx_sandbox context)) (JNum 1024)) (JNum 1024))
                   then formula_failure rt startTime memoryUsed
                          (''Formula memory limit exceeded: '' @ to_string rt (JNum (real memoryUsed)) @ '' bytes'')
                          (Suc t1)
                   else (\<lparr> fr_value = result, fr_success = True, fr_error = None,
                           fr_executionTime = executionTime, fr_memoryUsed = memoryUsed \<rparr>, Suc t1))))"

definition evaluateFormula ::
  "runtime \<Rightarrow> FormGraph \<Rightarrow> state_map \<Rightarrow> nat \<Rightarrow> FormNode \<Rightarrow> (string + jsval) \<times> nat" where
  "evaluateFormula rt graph st t node =
     (let parameters = node_parameters node;
          formula = js_or (js_get parameters ''expression'') (js_get parameters ''formula'')
      in if \<not> js_truthy formula then (Inl (''Formula node '' @ n_id node @ '' missing expression''), t)
         else
           (let context = \<lparr> ctx_variables = buildVariableContext graph st node,
                            ctx_functions = getBuiltinFunctions,
                            ctx_sandbox = \<lparr> allowedFunctions = js_or (js_get parameters ''allowedFunctions'') (JArr []),
                                        timeoutMs = js_or (js_get parameters ''timeout'') (JNum 5000),
                                        memoryLimitMb = js_or (js_get parameters ''memoryLimit'') (JNum 10) \<rparr> \<rparr>
            in case evaluate rt t formula context of
                 (result, t1) \<Rightarrow>
                   if \<not> fr_success result
                   then (Inl (''Formula evaluation failed: '' @ (case fr_error result of Some e \<Rightarrow> e | None \<Rightarrow> ''undefined'')), t1)
                   else (Inr (fr_value result), t1)))"

subsection \<open>Custom nodes\<close>

text \<open>
  \<open>updateNodeState\<close> writes \<open>node.data.state\<close> of a node of the graph. No evaluator of
  the executor reads that field; the writes are kept in a map \<open>ns\<close> from node
  identifiers to states beside the graph, and a custom evaluator, which receives the
  node and the graph, is handed both with these states written in.
\<close>

definition with_state :: "(string \<times> NodeState) list \<Rightarrow> FormNode \<Rightarrow> FormNode" where
  "with_state ns node =
     (case map_of ns (n_id node) of
        None \<Rightarrow> node
      | Some s \<Rightarrow> node\<lparr>n_data := (n_data node)\<lparr>d_state := Some s\<rparr>\<rparr>)"

definition graph_with_states :: "(string \<times> NodeState) list \<Rightarrow> FormGraph \<Rightarrow> FormGraph" where
  "graph_with_states ns graph = graph\<lparr>g_nodes := map (\<lambda>(k, node). (k, with_state ns node)) (g_nodes graph)\<rparr>"

definition evaluateCustomNode ::
  "runtime \<Rightarrow> FormGraph \<Rightarrow> (string \<times> NodeState) list \<Rightarrow> state_map \<Rightarrow> nat \<Rightarrow> FormNode \<Rightarrow> (string + jsval) \<times> nat" where
  "evaluateCustomNode rt graph ns st t node =
     (let customType = (case n_custom_type node of None \<Rightarrow> ''unknown'' | Some s \<Rightarrow> if s = [] then ''unknown'' else s);
          customEvaluators = js_or (js_get (g_extensions graph) ''customEvaluators'') (JObj []);
          evaluator = (case customEvaluators of JObj ps \<Rightarrow> js_get ps customType | _ \<Rightarrow> Undefined)
      in if js_truthy evaluator
         then (call_function rt evaluator t (with_state ns node) (graph_with_states ns graph) st, Suc t)
         else (Inr (js_get st (n_id node)), t))"

subsection \<open>evaluateNode\<close>

definition evaluateNode ::
  "runtime \<Rightarrow> FormGraph \<Rightarrow> (string \<times> NodeState) list \<Rightarrow> state_map \<Rightarrow> nat \<Rightarrow> FormNode \<Rightarrow> (string + jsval) \<times> nat" where
  "evaluateNode rt graph ns st t node =
     (case n_type node of
        Concept \<Rightarrow> (Inr (evaluateConcept graph st node), t)
      | Condition \<Rightarrow> (Inr (evaluateCondition rt graph st node), t)
      | Action \<Rightarrow> (evaluateAction rt graph st node, t)
      | Event \<Rightarrow> (case evaluateEvent rt st t node of (v, t1) \<Rightarrow> (Inr v, t1))
      | Formula \<Rightarrow> evaluateFormula rt graph st t node
      | Custom \<Rightarrow> evaluateCustomNode rt graph ns st t node)"

section \<open>FormExecutor: the scheduler\<close>

subsection \<open>State of an execution\<close>

datatype StepAction = ActEvaluate | ActExecute | ActTrigger | ActComplete

record ExecutionStep =
  stepNumber :: nat
  s_nodeId :: string
  s_action :: StepAction
  s_timestamp :: int
  inputState :: jsval
  outputState :: jsval
  duration :: int

datatype ExecErrorType =
  Timeout | Infinite_loop | Formula_error | Condition_error | Extension_error | Execution_error | Node_execution

record ExecutionError =
  x_type :: ExecErrorType
  x_message :: string
  x_nodeId :: "string option"
  x_timestamp :: int

record ExecutionMetrics =
  totalDuration :: int
  nodesExecuted :: nat
  iterationsCompleted :: int
  memoryUsed :: nat
  formulasEvaluated :: nat

record ExecutionResult =
  success :: bool
  finalState :: state_map
  res_trace :: "ExecutionStep list"
  metrics :: ExecutionMetrics
  res_errors :: "ExecutionError list option"

text \<open>
  The fields of the class \<open>FormExecutor\<close>, with the node states written by
  \<open>updateNodeState\<close> and the count of interactions with the host.
\<close>

record Executor =
  executionState :: state_map
  executionTrace :: "ExecutionStep list"
  exec_errors :: "ExecutionError list"
  startTime :: int
  currentIteration :: int
  nodeStates :: "(string \<times> NodeState) list"
  ticks :: nat

definition addExecutionStep ::
  "runtime \<Rightarrow> string \<Rightarrow> StepAction \<Rightarrow> jsval \<Rightarrow> jsval \<Rightarrow> int \<Rightarrow> Executor \<Rightarrow> Executor" where
  "addExecutionStep rt nodeId action inp out dur x =
     x\<lparr> executionTrace := executionTrace x @
            [\<lparr> stepNumber = length (executionTrace x) + 1, s_nodeId = nodeId, s_action = action,
               s_timestamp = date_now rt (ticks x), inputState = inp, outputState = out,
               duration = dur \<rparr>],
        ticks := Suc (ticks x) \<rparr>"

definition addError :: "runtime \<Rightarrow> ExecErrorType \<Rightarrow> string \<Rightarrow> string option \<Rightarrow> Executor \<Rightarrow> Executor" where
  \<comment> \<open>the timestamp argument of every call is \<open>Date.now()\<close>\<close>
  "addError rt type message nodeId x =
     x\<lparr> exec_errors := exec_errors x @
            [\<lparr> x_type = type, x_message = message, x_nodeId = nodeId,
               x_timestamp = date_now rt (ticks x) \<rparr>],
        ticks := Suc (ticks x) \<rparr>"

definition updateNodeState :: "string \<Rightarrow> NodeState \<Rightarrow> Executor \<Rightarrow> Executor" where
  "updateNodeState nodeId s x = x\<lparr>nodeStates := AList.update nodeId s (nodeStates x)\<rparr>"

definition valuesEqual :: "runtime \<Rightarrow> jsval \<Rightarrow> jsval \<Rightarrow> bool" where
  "valuesEqual rt a b =
     (if js_strict_eq a b then True
      else if js_typeof a \<noteq> js_typeof b then False
      else if js_typeof a = ''object'' \<and> a \<noteq> Null \<and> b \<noteq> Null
      then json_stringify rt a = json_stringify rt b
      else False)"

definition getInitialNodeValue :: "FormNode \<Rightarrow> jsval" where
  "getInitialNodeValue node =
     (if d_value (n_data node) \<noteq> Undefined then d_value (n_data node)
      else case n_type node of
             Concept \<Rightarrow> JNum 0
           | Condition \<Rightarrow> JBool False
           | Action \<Rightarrow> JBool False
           | Event \<Rightarrow> JBool False
           | Formula \<Rightarrow> Null
           | Custom \<Rightarrow> Null)"

definition initializeExecution :: "runtime \<Rightarrow> FormGraph \<Rightarrow> (string \<times> jsval) list \<Rightarrow> Executor" where
  "initializeExecution rt graph inputs =
     (let x0 = \<lparr> executionState = [], executionTrace = [], exec_errors = [],
                 startTime = date_now rt 0, currentIteration = 0, nodeStates = [], ticks = 1 \<rparr>;
          x1 = fold (\<lambda>(nodeId, v) x.
                       addExecutionStep rt nodeId ActEvaluate v v 0
                         (x\<lparr>executionState := AList.update nodeId v (executionState x)\<rparr>))
                    inputs x0
      in fold (\<lambda>(nodeId, node) x.
                 if map_of (executionState x) nodeId = None
                 then x\<lparr>executionState := AList.update nodeId (getInitialNodeValue node) (executionState x)\<rparr>
                 else x)
              (g_nodes graph) x1)"

subsection \<open>Processing one node\<close>

text \<open>
  \<open>processNode\<close>; the body of the inner loop of \<open>executeSequential\<close> is the same code.
  The result says whether the value changed.
\<close>

definition processNode :: "runtime \<Rightarrow> FormGraph \<Rightarrow> string \<Rightarrow> Executor \<Rightarrow> bool \<times> Executor" where
  "processNode rt graph nodeId x =
     (case map_of (g_nodes graph) nodeId of
        None \<Rightarrow> (False, x)
      | Some node \<Rightarrow>
          (let stepStartTime = date_now rt (ticks x);
               previousValue = js_get (executionState x) nodeId
           in case evaluateNode rt graph (nodeStates x) (executionState x) (Suc (ticks x)) node of
                (Inr newValue, t1) \<Rightarrow>
                  (let stepDuration = date_now rt t1 - stepStartTime;
                       x1 = x\<lparr>ticks := Suc t1\<rparr>
                   in if \<not> valuesEqual rt previousValue newValue
                      then (True,
                            updateNodeState nodeId Completed
                              (addExecutionStep rt nodeId ActExecute previousValue newValue stepDuration
                                 (x1\<lparr>executionState := AList.update nodeId newValue (executionState x1)\<rparr>)))
                      else (False, x1))
              | (Inl message, t1) \<Rightarrow>
                  (False, updateNodeState nodeId Failed
                            (addError rt Node_execution message (Some nodeId) (x\<lparr>ticks := t1\<rparr>)))))"

definition process_all :: "runtime \<Rightarrow> FormGraph \<Rightarrow> string list \<Rightarrow> Executor \<Rightarrow> bool \<times> Executor" where
  \<comment> \<open>\<open>for (const nodeId of nodeIds)\<close>, with the flag that some node changed\<close>
  "process_all rt graph nodeIds x =
     fold (\<lambda>nodeId (hasChanges, x).
             case processNode rt graph nodeId x of (changed, x1) \<Rightarrow> (hasChanges \<or> changed, x1))
          nodeIds (False, x)"

subsection \<open>Sequential order\<close>

text \<open>
  \<open>getProcessingOrder\<close>: depth-first over the reverse adjacency, a node after its
  dependencies. The state is \<open>(visited, result)\<close>; fuel is used at each descent.
\<close>

fun gpo_dfs :: "nat \<Rightarrow> (string \<times> string list) list \<Rightarrow> string \<Rightarrow> string list \<times> string list
                  \<Rightarrow> (string list \<times> string list) option"
and gpo_deps :: "nat \<Rightarrow> (string \<times> string list) list \<Rightarrow> string list \<Rightarrow> string list \<times> string list
                  \<Rightarrow> (string list \<times> string list) option"
where
  "gpo_dfs k radj nodeId (visited, result) =
     (if nodeId \<in> set visited then Some (visited, result)
      else case k of
             0 \<Rightarrow> None
           | Suc k' \<Rightarrow>
               (case gpo_deps k' radj (map_get_list radj nodeId) (nodeId # visited, result) of
                  None \<Rightarrow> None
                | Some (visited', result') \<Rightarrow> Some (visited', result' @ [nodeId])))"
| "gpo_deps k radj [] s = Some s"
| "gpo_deps k radj (depId # rest) s =
     (case gpo_dfs k radj depId s of
        None \<Rightarrow> None
      | Some s' \<Rightarrow> gpo_deps k radj rest s')"

definition gpo_fuel :: "FormGraph \<Rightarrow> nat" where
  "gpo_fuel graph = Suc (length (g_nodes graph) + length (concat (map snd (reverseAdjacencyList graph))))"

definition getProcessingOrder :: "FormGraph \<Rightarrow> string list option" where
  "getProcessingOrder graph =
     map_option snd
       (gpo_deps (gpo_fuel graph) (reverseAdjacencyList graph) (map fst (g_nodes graph)) ([], []))"

subsection \<open>Dependency levels\<close>

function levels_loop ::
  "FormGraph \<Rightarrow> nat \<Rightarrow> string list \<Rightarrow> string list list \<Rightarrow> string list list" where
  "levels_loop graph currentLevel visited levels =
     (if card (set visited) < length (g_nodes graph) \<and> currentLevel < 100 then
        (let nextLevel = filter (\<lambda>nodeId. nodeId \<notin> set visited
                                   \<and> list_all (\<lambda>depId. depId \<in> set visited) (incomingNodes graph nodeId))
                                (map fst (g_nodes graph))
         in if nextLevel \<noteq> []
            then levels_loop graph (Suc currentLevel) (visited @ nextLevel) (levels @ [nextLevel])
            else levels_loop graph (Suc currentLevel) visited levels)
      else levels)"
  by pat_completeness auto
termination
  by (relation "measure (\<lambda>(graph, currentLevel, visited, levels). 100 - currentLevel)") auto

declare levels_loop.simps [simp del]

definition groupNodesByDependencyLevel :: "FormGraph \<Rightarrow> string list list" where
  "groupNodesByDependencyLevel graph =
     (let level0 = filter (\<lambda>nodeId. incomingNodes graph nodeId = []) (map fst (g_nodes graph))
      in levels_loop graph 0 level0 (if level0 \<noteq> [] then [level0] else []))"

subsection \<open>One level of a parallel pass\<close>

text \<open>
  The callbacks of one level are started one after the other by \<open>levelNodes.map\<close>. Each
  runs up to \<open>await this.evaluateNode(node, graph)\<close>, and the evaluators do all their
  work (the calls of the expression engine and of the clock included) before they
  first yield, so the nodes are evaluated in the order of the level, all of them on the
  same state map (\<open>level_start\<close>). The rest of each callback (the duration, the
  comparison, the recording of an error) runs once all have started, when the awaited
  promise is settled. For a formula node \<open>evaluateNode\<close> returns the promise of
  \<open>evaluateFormula\<close>, and a promise resolved with a promise is settled some turns of
  the job queue later than one resolved with a value or rejected at once: the callbacks
  of the formula nodes resume after those of all other nodes of the level, each group in
  the order of the level (\<open>level_settle\<close>). \<open>Promise.all\<close> gives the results in the
  order of the level, and only then are the new values written (\<open>level_apply\<close>).
\<close>

datatype level_result =
    Missing
  | Pending int jsval "string + jsval"
  | Failure
  | Success jsval jsval int bool

definition level_start :: "runtime \<Rightarrow> FormGraph \<Rightarrow> string list \<Rightarrow> Executor \<Rightarrow> (string \<times> level_result) list \<times> Executor" where
  "level_start rt graph levelNodes x =
     fold (\<lambda>nodeId (results, x).
             case map_of (g_nodes graph) nodeId of
               None \<Rightarrow> (results @ [(nodeId, Missing)], x)
             | Some node \<Rightarrow>
                 (case evaluateNode rt graph (nodeStates x) (executionState x) (Suc (ticks x)) node of
                    (outcome, t1) \<Rightarrow>
                      (results @ [(nodeId, Pending (date_now rt (ticks x)) (js_get (executionState x) nodeId) outcome)],
                       x\<lparr>ticks := t1\<rparr>)))
          levelNodes ([], x)"

definition settle_callbacks ::
  "runtime \<Rightarrow> (string \<times> level_result) list \<Rightarrow> Executor \<Rightarrow> (string \<times> level_result) list \<times> Executor" where
  \<comment> \<open>the callbacks of \<open>started\<close> resume one after the other\<close>
  "settle_callbacks rt started x =
     fold (\<lambda>(nodeId, r) (results, x).
             case r of
               Pending stepStartTime previousValue (Inr newValue) \<Rightarrow>
                 (results @ [(nodeId, Success previousValue newValue (date_now rt (ticks x) - stepStartTime)
                                        (\<not> valuesEqual rt previousValue newValue))],
                  x\<lparr>ticks := Suc (ticks x)\<rparr>)
             | Pending stepStartTime previousValue (Inl message) \<Rightarrow>
                 (results @ [(nodeId, Failure)],
                  updateNodeState nodeId Failed (addError rt Node_execution message (Some nodeId) x))
             | _ \<Rightarrow> (results @ [(nodeId, r)], x))
          started ([], x)"

definition is_formula :: "FormGraph \<Rightarrow> string \<times> level_result \<Rightarrow> bool" where
  "is_formula graph entry =
     (case map_of (g_nodes graph) (fst entry) of None \<Rightarrow> False | Some node \<Rightarrow> n_type node = Formula)"

fun in_level_order :: "('a \<Rightarrow> bool) \<Rightarrow> 'a list \<Rightarrow> 'b list \<Rightarrow> 'b list \<Rightarrow> 'b list" where
  \<comment> \<open>the results of the entries that are not \<open>late\<close> and of those that are, put back in
      the order of the entries\<close>
  "in_level_order late [] early_results late_results = []"
| "in_level_order late (e # es) early_results late_results =
     (if late e
      then (case late_results of
              [] \<Rightarrow> in_level_order late es early_results []
            | r # rs \<Rightarrow> r # in_level_order late es early_results rs)
      else (case early_results of
              [] \<Rightarrow> in_level_order late es [] late_results
            | r # rs \<Rightarrow> r # in_level_order late es rs late_results))"

definition level_settle ::
  "runtime \<Rightarrow> FormGraph \<Rightarrow> (string \<times> level_result) list \<Rightarrow> Executor \<Rightarrow> (string \<times> level_result) list \<times> Executor" where
  "level_settle rt graph started x =
     (case settle_callbacks rt (filter (\<lambda>e. \<not> is_formula graph e) started) x of
        (early_results, x1) \<Rightarrow>
          (case settle_callbacks rt (filter (is_formula graph) started) x1 of
             (late_results, x2) \<Rightarrow>
               (in_level_order (is_formula graph) started early_results late_results, x2)))"

definition level_apply :: "runtime \<Rightarrow> (string \<times> level_result) list \<Rightarrow> bool \<times> Executor \<Rightarrow> bool \<times> Executor" where
  "level_apply rt results acc =
     fold (\<lambda>(nodeId, r) (hasChanges, x).
             case r of
               Success previousValue newValue stepDuration True \<Rightarrow>
                 (True,
                  updateNodeState nodeId Completed
                    (addExecutionStep rt nodeId ActExecute previousValue newValue stepDuration
                       (x\<lparr>executionState := AList.update nodeId newValue (executionState x)\<rparr>)))
             | _ \<Rightarrow> (hasChanges, x))
          results acc"

definition process_level :: "runtime \<Rightarrow> FormGraph \<Rightarrow> string list \<Rightarrow> bool \<times> Executor \<Rightarrow> bool \<times> Executor" where
  "process_level rt graph levelNodes acc =
     (case level_start rt graph levelNodes (snd acc) of
        (started, x1) \<Rightarrow>
          (case level_settle rt graph started x1 of
             (results, x2) \<Rightarrow> level_apply rt results (fst acc, x2)))"

subsection \<open>Strongly connected components and cycles\<close>

definition findStronglyConnectedComponents :: "FormGraph \<Rightarrow> string list list" where
  "findStronglyConnectedComponents graph = map (\<lambda>nodeId. [nodeId]) (map fst (g_nodes graph))"

fun processCycle_loop :: "runtime \<Rightarrow> FormGraph \<Rightarrow> string list \<Rightarrow> nat \<Rightarrow> bool \<Rightarrow> Executor \<Rightarrow> bool \<times> Executor" where
  \<comment> \<open>the third argument counts the rounds that are left of \<open>maxCycleIterations\<close>\<close>
  "processCycle_loop rt graph nodeIds 0 hasChanges x = (hasChanges, x)"
| "processCycle_loop rt graph nodeIds (Suc n) hasChanges x =
     (case process_all rt graph nodeIds x of
        (cycleChanges, x1) \<Rightarrow>
          if \<not> cycleChanges then (hasChanges \<or> cycleChanges, x1)
          else processCycle_loop rt graph nodeIds n (hasChanges \<or> cycleChanges) x1)"

definition processCycle :: "runtime \<Rightarrow> FormGraph \<Rightarrow> string list \<Rightarrow> Executor \<Rightarrow> bool \<times> Executor" where
  "processCycle rt graph nodeIds x = processCycle_loop rt graph nodeIds 10 False x"

subsection \<open>The three schedulers\<close>

text \<open>
  \<open>executeSequential\<close>, \<open>executeParallel\<close> and \<open>executeHybrid\<close> are the same loop around
  a different pass. A pass gives the flag \<open>hasChanges\<close>, or the message of an exception.
\<close>

datatype Strategy = SequentialS | ParallelS | HybridS

definition run_pass :: "runtime \<Rightarrow> FormGraph \<Rightarrow> Strategy \<Rightarrow> Executor \<Rightarrow> (string + bool) \<times> Executor" where
  "run_pass rt graph strategy x =
     (case strategy of
        SequentialS \<Rightarrow>
          (case getProcessingOrder graph of
             None \<Rightarrow> (Inl ''Maximum call stack size exceeded'', x)
           | Some processingOrder \<Rightarrow>
               (case process_all rt graph processingOrder x of (changed, x1) \<Rightarrow> (Inr changed, x1)))
      | ParallelS \<Rightarrow>
          (case fold (process_level rt graph) (groupNodesByDependencyLevel graph) (False, x) of
             (changed, x1) \<Rightarrow> (Inr changed, x1))
      | HybridS \<Rightarrow>
          (case fold (\<lambda>component (hasChanges, x).
                        if length component = 1
                        then (case processNode rt graph (hd component) x of
                                (changed, x1) \<Rightarrow> (changed \<or> hasChanges, x1))
                        else (case processCycle rt graph component x of
                                (changed, x1) \<Rightarrow> (changed \<or> hasChanges, x1)))
                     (findStronglyConnectedComponents graph) (False, x) of
             (changed, x1) \<Rightarrow> (Inr changed, x1)))"

lemma fold_snd_inv:
  assumes "\<And>a acc. h (snd (f a acc)) = h (snd acc)"
  shows "h (snd (fold f xs acc)) = h (snd acc)"
  using assms by (induction xs arbitrary: acc) simp_all

lemma processNode_iteration: "currentIteration (snd (processNode rt graph nodeId x)) = currentIteration x"
  by (simp add: processNode_def updateNodeState_def addExecutionStep_def addError_def Let_def
      split: option.splits prod.splits sum.splits)

lemma process_all_iteration: "currentIteration (snd (process_all rt graph nodeIds x)) = currentIteration x"
  unfolding process_all_def
  by (rule trans[OF fold_snd_inv]) (simp_all add: split_def processNode_iteration)

lemma level_start_iteration: "currentIteration (snd (level_start rt graph levelNodes x)) = currentIteration x"
  unfolding level_start_def
  by (rule trans[OF fold_snd_inv]) (simp_all add: split_def split: option.splits)

lemma settle_callbacks_iteration: "currentIteration (snd (settle_callbacks rt started x)) = currentIteration x"
  unfolding settle_callbacks_def
  by (rule trans[OF fold_snd_inv])
    (simp_all add: split_def updateNodeState_def addError_def split: level_result.splits sum.splits)

lemma level_settle_iteration: "currentIteration (snd (level_settle rt graph started x)) = currentIteration x"
  by (simp add: level_settle_def split_def settle_callbacks_iteration)

lemma level_apply_iteration: "currentIteration (snd (level_apply rt results acc)) = currentIteration (snd acc)"
  unfolding level_apply_def
  by (rule fold_snd_inv)
    (simp add: split_def updateNodeState_def addExecutionStep_def split: level_result.splits bool.splits)

lemma process_level_iteration:
  "currentIteration (snd (process_level rt graph levelNodes acc)) = currentIteration (snd acc)"
  by (simp add: process_level_def split_def level_apply_iteration level_settle_iteration level_start_iteration)

lemma processCycle_loop_iteration:
  "currentIteration (snd (processCycle_loop rt graph nodeIds n b x)) = currentIteration x"
  by (induction n arbitrary: b x) (simp_all add: split_def process_all_iteration)

lemma hybrid_step_iteration:
  "currentIteration (snd (case acc of (hasChanges, x) \<Rightarrow>
                        if length component = 1
                        then (case processNode rt graph (hd component) x of
                                (changed, x1) \<Rightarrow> (changed \<or> hasChanges, x1))
                        else (case processCycle rt graph component x of
                                (changed, x1) \<Rightarrow> (changed \<or> hasChanges, x1))))
     = currentIteration (snd acc)"
  by (simp add: split_def processNode_iteration processCycle_def processCycle_loop_iteration)

lemma run_pass_iteration: "currentIteration (snd (run_pass rt graph strategy x)) = currentIteration x"
proof (cases strategy)
  case SequentialS
  then show ?thesis
    by (simp add: run_pass_def split_def process_all_iteration split: option.splits)
next
  case ParallelS
  have "currentIteration (snd (fold (process_level rt graph) (groupNodesByDependencyLevel graph) (False, x)))
          = currentIteration (snd (False, x))"
    by (rule fold_snd_inv) (rule process_level_iteration)
  with ParallelS show ?thesis by (simp add: run_pass_def split_def)
next
  case HybridS
  have "currentIteration (snd (fold (\<lambda>component (hasChanges, x).
                        if length component = 1
                        then (case processNode rt graph (hd component) x of
                                (changed, x1) \<Rightarrow> (changed \<or> hasChanges, x1))
                        else (case processCycle rt graph component x of
                                (changed, x1) \<Rightarrow> (changed \<or> hasChanges, x1)))
                     (findStronglyConnectedComponents graph) (False, x)))
          = currentIteration (snd (False, x))"
    by (rule fold_snd_inv) (rule hybrid_step_iteration)
  with HybridS show ?thesis by (simp add: run_pass_def split_def)
qed

function scheduler_loop ::
  "runtime \<Rightarrow> FormGraph \<Rightarrow> Strategy \<Rightarrow> int \<Rightarrow> int \<Rightarrow> int \<Rightarrow> bool \<Rightarrow> Executor \<Rightarrow> string option \<times> Executor" where
  "scheduler_loop rt graph strategy maxIterations time_limit loopStart hasChanges x =
     (if hasChanges \<and> currentIteration x < maxIterations then
        (if date_now rt (ticks x) - loopStart > time_limit
         then (Some (''Execution timeout after '' @ to_string rt (JNum (of_int time_limit)) @ ''ms''),
               x\<lparr>ticks := Suc (ticks x)\<rparr>)
         else (let pass = run_pass rt graph strategy
                            (x\<lparr>ticks := Suc (ticks x), currentIteration := currentIteration x + 1\<rparr>)
               in case fst pass of
                    Inl message \<Rightarrow> (Some message, snd pass)
                  | Inr changed \<Rightarrow>
                      scheduler_loop rt graph strategy maxIterations time_limit loopStart changed (snd pass)))
      else (None, x))"
  by pat_completeness auto
termination
  by (relation "measure (\<lambda>(rt, graph, strategy, maxIterations, time_limit, loopStart, hasChanges, x).
                           nat (maxIterations - currentIteration x))")
    (auto simp: run_pass_iteration)

declare scheduler_loop.simps [simp del]

definition run_scheduler :: "runtime \<Rightarrow> FormGraph \<Rightarrow> Strategy \<Rightarrow> Executor \<Rightarrow> string option \<times> Executor" where
  "run_scheduler rt graph strategy x =
     (let maxIterations = int_or (max_iterations (g_execution graph)) 1000;
          time_limit = int_or (timeout (g_execution graph)) 30000;
          loopStart = date_now rt (ticks x)
      in case scheduler_loop rt graph strategy maxIterations time_limit loopStart True (x\<lparr>ticks := Suc (ticks x)\<rparr>) of
           (Some message, x1) \<Rightarrow> (Some message, x1)
         | (None, x1) \<Rightarrow>
             if currentIteration x1 \<ge> maxIterations
             then (Some (''Maximum iterations ('' @ to_string rt (JNum (of_int maxIterations)) @ '') exceeded''), x1)
             else (None, x1))"

definition executeSequential :: "runtime \<Rightarrow> FormGraph \<Rightarrow> Executor \<Rightarrow> string option \<times> Executor" where
  "executeSequential rt graph x = run_scheduler rt graph SequentialS x"

definition executeParallel :: "runtime \<Rightarrow> FormGraph \<Rightarrow> Executor \<Rightarrow> string option \<times> Executor" where
  "executeParallel rt graph x = run_scheduler rt graph ParallelS x"

definition executeHybrid :: "runtime \<Rightarrow> FormGraph \<Rightarrow> Executor \<Rightarrow> string option \<times> Executor" where
  "executeHybrid rt graph x = run_scheduler rt graph HybridS x"

definition js_member :: "jsval \<Rightarrow> string \<Rightarrow> jsval" where
  \<comment> \<open>\<open>v?.k\<close>; a property read on anything but a plain object is taken as \<open>undefined\<close>\<close>
  "js_member v k = (case v of JObj ps \<Rightarrow> js_get ps k | _ \<Rightarrow> Undefined)"

definition executeAdaptive :: "runtime \<Rightarrow> FormGraph \<Rightarrow> Executor \<Rightarrow> string option \<times> Executor" where
  "executeAdaptive rt graph x =
     (let complexity = js_member (js_get (g_extensions graph) ''compilation'') ''complexity'';
          nodeCount = length (g_nodes graph)
      in if nodeCount < 10 \<or> js_rel rt ''<'' (js_or (js_member complexity ''avgBranching'') (JNum 0)) (JNum 2)
         then executeSequential rt graph x
         else if js_strict_eq (js_or (js_member complexity ''cycleCount'') (JNum 0)) (JNum 0) \<and> nodeCount > 20
         then executeParallel rt graph x
         else executeHybrid rt graph x)"

subsection \<open>The result\<close>

definition estimateMemoryUsage :: "runtime \<Rightarrow> Executor \<Rightarrow> string + nat" where
  \<comment> \<open>\<open>JSON.stringify(value).length\<close> throws when the value has no JSON text\<close>
  "estimateMemoryUsage rt x =
     fold (\<lambda>(key, v) acc.
             case acc of
               Inl message \<Rightarrow> Inl message
             | Inr bytes \<Rightarrow>
                 (case json_stringify rt v of
                    None \<Rightarrow> Inl length_of_undefined
                  | Some text \<Rightarrow> Inr (bytes + length key * 2 + length text * 2)))
          (executionState x) (Inr 0)"

definition buildExecutionResult :: "runtime \<Rightarrow> bool \<Rightarrow> Executor \<Rightarrow> string + ExecutionResult" where
  "buildExecutionResult rt ok x =
     (let endTime = date_now rt (ticks x) in
      case estimateMemoryUsage rt x of
        Inl message \<Rightarrow> Inl message
      | Inr mem \<Rightarrow>
          Inr \<lparr> success = ok,
                finalState = executionState x,
                res_trace = executionTrace x,
                metrics = \<lparr> totalDuration = endTime - startTime x,
                            nodesExecuted = length (remdups (map s_nodeId (executionTrace x))),
                            iterationsCompleted = currentIteration x,
                            memoryUsed = mem,
                            formulasEvaluated = length (filter (\<lambda>step. s_action step = ActEvaluate) (executionTrace x)) \<rparr>,
                res_errors = (if ok then None else Some (exec_errors x)) \<rparr>)"

subsection \<open>execute\<close>

text \<open>
  \<open>run_mode\<close> is the \<open>try\<close> block of \<open>execute\<close> up to the call of
  \<open>buildExecutionResult(true)\<close>: it gives the message of the exception that was thrown,
  if any, and the state of the executor at that moment. In the result of \<open>execute\<close>,
  \<open>Inl\<close> is the rejection of the promise that \<open>execute\<close> returns: an exception
  thrown by \<open>buildExecutionResult\<close> inside the \<open>catch\<close> block.
\<close>

definition run_mode ::
  "runtime \<Rightarrow> FormGraph \<Rightarrow> (string \<times> jsval) list \<Rightarrow> ExecutionConfig option \<Rightarrow> string option \<times> Executor" where
  "run_mode rt graph inputs config =
     (let x0 = initializeExecution rt graph inputs;
          m = mode_or (Option.bind config mode) (mode_or (mode (g_execution graph)) Adaptive)
      in case m of
           Sequential \<Rightarrow> executeSequential rt graph x0
         | Parallel \<Rightarrow> executeParallel rt graph x0
         | Adaptive \<Rightarrow> executeAdaptive rt graph x0
         | UnknownMode s \<Rightarrow> (Some (''Unknown execution mode: '' @ s), x0))"

definition execute ::
  "runtime \<Rightarrow> FormGraph \<Rightarrow> (string \<times> jsval) list \<Rightarrow> ExecutionConfig option \<Rightarrow> string + ExecutionResult" where
  "execute rt graph inputs config =
     (case run_mode rt graph inputs config of
        (None, x1) \<Rightarrow>
          (case buildExecutionResult rt True x1 of
             Inr result \<Rightarrow> Inr result
           | Inl message \<Rightarrow>
               buildExecutionResult rt False
                 (addError rt Execution_error message None (x1\<lparr>ticks := Suc (ticks x1)\<rparr>)))
      | (Some message, x1) \<Rightarrow>
          buildExecutionResult rt False (addError rt Execution_error message None x1))"

section \<open>Properties of the scheduler\<close>

subsection \<open>The fuel of getProcessingOrder suffices\<close>

lemma gpo_total_aux:
  fixes U :: "string set"
  assumes fin: "finite U"
  shows "adj_targets radj \<subseteq> U \<Longrightarrow> nodeId \<in> U \<Longrightarrow> card (U - set (fst s)) \<le> k \<Longrightarrow>
           (\<exists>s'. gpo_dfs k radj nodeId s = Some s' \<and> set (fst s) \<subseteq> set (fst s'))"
    and "adj_targets radj \<subseteq> U \<Longrightarrow> set deps \<subseteq> U \<Longrightarrow> card (U - set (fst s)) \<le> k \<Longrightarrow>
           (\<exists>s'. gpo_deps k radj deps s = Some s' \<and> set (fst s) \<subseteq> set (fst s'))"
proof (induction k radj nodeId s and k radj deps s rule: gpo_dfs_gpo_deps.induct)
  case (1 k radj nodeId visited result)
  note tg = "1.prems"(1)
  show ?case
  proof (cases "nodeId \<in> set visited")
    case True
    then show ?thesis by simp
  next
    case False
    have mem: "nodeId \<in> U - set visited" using False "1.prems" by simp
    then have pos: "card (U - set visited) > 0"
      using fin by (metis card_gt_0_iff finite_Diff empty_iff)
    then obtain k' where k: "k = Suc k'" using "1.prems" by (cases k) auto
    have sub: "U - set (nodeId # visited) \<subset> U - set visited"
      using mem by auto
    have "card (U - set (nodeId # visited)) < card (U - set visited)"
      by (rule psubset_card_mono) (use fin sub in auto)
    then have le: "card (U - set (fst (nodeId # visited, result))) \<le> k'"
      using "1.prems" k by simp
    have deps: "set (map_get_list radj nodeId) \<subseteq> U"
      using map_get_list_targets[of radj nodeId] tg by blast
    from "1.IH"[OF False k tg deps le]
    obtain s' where s': "gpo_deps k' radj (map_get_list radj nodeId) (nodeId # visited, result) = Some s'"
      and mono: "set (fst (nodeId # visited, result)) \<subseteq> set (fst s')" by blast
    show ?thesis using False k s' mono by (cases s') auto
  qed
next
  case (2 k radj s)
  then show ?case by simp
next
  case (3 k radj depId rest s)
  note tg = "3.prems"(1)
  from "3.prems" have d: "depId \<in> U" and r: "set rest \<subseteq> U" by auto
  from "3.IH"(1)[OF tg d "3.prems"(3)]
  obtain s1 where s1: "gpo_dfs k radj depId s = Some s1" and m1: "set (fst s) \<subseteq> set (fst s1)" by blast
  have "U - set (fst s1) \<subseteq> U - set (fst s)" using m1 by auto
  then have "card (U - set (fst s1)) \<le> card (U - set (fst s))"
    using fin by (intro card_mono) auto
  then have le: "card (U - set (fst s1)) \<le> k" using "3.prems"(3) by simp
  from "3.IH"(2)[OF s1 tg r le]
  obtain s2 where s2: "gpo_deps k radj rest s1 = Some s2" and m2: "set (fst s1) \<subseteq> set (fst s2)" by blast
  show ?case using s1 s2 m1 m2 by auto
qed

lemma card_adj_targets: "card (adj_targets radj) \<le> length (concat (map snd radj))"
proof -
  have eq: "adj_targets radj = set (concat (map snd radj))"
    by (auto simp: adj_targets_def)
  show ?thesis unfolding eq by (rule card_length)
qed

lemma getProcessingOrder_total: "\<exists>order. getProcessingOrder graph = Some order"
proof -
  let ?keys = "map fst (g_nodes graph)"
  let ?radj = "reverseAdjacencyList graph"
  let ?U = "set ?keys \<union> adj_targets ?radj"
  have fin: "finite ?U" by (simp add: finite_adj_targets)
  have "card ?U \<le> card (set ?keys) + card (adj_targets ?radj)" by (rule card_Un_le)
  also have "\<dots> \<le> length (g_nodes graph) + length (concat (map snd ?radj))"
    using card_length[of ?keys] card_adj_targets[of ?radj] by simp
  finally have "card (?U - set (fst (([], []) :: string list \<times> string list))) \<le> gpo_fuel graph"
    by (simp add: gpo_fuel_def)
  from gpo_total_aux(2)[OF fin _ _ this, of ?radj ?keys]
  obtain s' where "gpo_deps (gpo_fuel graph) ?radj ?keys ([], []) = Some s'" by auto
  then show ?thesis by (simp add: getProcessingOrder_def)
qed

subsection \<open>What a run records and how it ends\<close>

text \<open>The messages of the two exceptions that the scheduler throws.\<close>

definition timeout_message :: "runtime \<Rightarrow> int \<Rightarrow> string" where
  "timeout_message rt time_limit = ''Execution timeout after '' @ to_string rt (JNum (of_int time_limit)) @ ''ms''"

definition iteration_message :: "runtime \<Rightarrow> int \<Rightarrow> string" where
  "iteration_message rt maxIterations =
     ''Maximum iterations ('' @ to_string rt (JNum (of_int maxIterations)) @ '') exceeded''"

lemma messages_differ: "timeout_message rt a \<noteq> iteration_message rt b"
  by (simp add: timeout_message_def iteration_message_def)

lemma fold_snd_pred:
  assumes "\<And>a acc. P (snd acc) \<Longrightarrow> P (snd (f a acc))" and "P (snd acc)"
  shows "P (snd (fold f xs acc))"
  using assms by (induction xs arbitrary: acc) simp_all

lemma run_pass_returns: "\<exists>changed. fst (run_pass rt graph strategy x) = Inr changed"
  using getProcessingOrder_total[of graph]
  by (cases strategy) (auto simp: run_pass_def split_def)

lemma fold_pred:
  assumes "\<And>a x. P x \<Longrightarrow> P (f a x)" and "P x"
  shows "P (fold f xs x)"
  using assms by (induction xs arbitrary: x) simp_all

lemma estimateMemoryUsage_state:
  "executionState x' = executionState x \<Longrightarrow> estimateMemoryUsage rt x' = estimateMemoryUsage rt x"
  by (simp add: estimateMemoryUsage_def)

lemma estimateMemoryUsage_throws:
  "estimateMemoryUsage rt x = Inl m \<Longrightarrow> list_ex (\<lambda>(k, v). json_stringify rt v = None) (executionState x)"
proof -
  define step where "step = (\<lambda>(key :: string, v) (acc :: string + nat).
             case acc of
               Inl message \<Rightarrow> Inl message
             | Inr bytes \<Rightarrow>
                 (case json_stringify rt v of
                    None \<Rightarrow> Inl length_of_undefined
                  | Some text \<Rightarrow> Inr (bytes + length key * 2 + length text * 2)))"
  have stuck: "fold step st (Inl e) = Inl e" for st e
    by (induction st) (simp_all add: step_def split_def)
  have "fold step st (Inr n) = Inl m \<Longrightarrow> list_ex (\<lambda>(k, v). json_stringify rt v = None) st" for st n
  proof (induction st arbitrary: n)
    case Nil
    then show ?case by simp
  next
    case (Cons p st)
    show ?case
    proof (cases "json_stringify rt (snd p)")
      case None
      then show ?thesis by (simp add: split_def)
    next
      case (Some js)
      then have "fold step st (Inr (n + length (fst p) * 2 + length js * 2)) = Inl m"
        using Cons.prems by (simp add: step_def split_def)
      from Cons.IH[OF this] show ?thesis by simp
    qed
  qed
  from this[of "executionState x" 0] show "estimateMemoryUsage rt x = Inl m \<Longrightarrow> ?thesis"
    by (simp add: estimateMemoryUsage_def step_def)
qed




section \<open>Example documents\<close>

definition zero_node :: FormNode where
  "zero_node =
     \<lparr> n_id = ''a'', n_type = Concept, n_label = ''A'',
       n_data = \<lparr> d_value = JNum 5, d_confidence = Some 0, d_weight = Some 0,
                  d_parameters = None, d_state = Some Inactive \<rparr>,
       n_custom_type = None, n_extensions = None \<rparr>"

definition zero_form :: FormFile where
  "zero_form =
     \<lparr> f_metadata = [(''id'', JStr ''zero'')], f_nodes = [zero_node], f_relations = [],
       f_execution = None, f_extensions = None \<rparr>"

definition unsafe_node :: FormNode where
  "unsafe_node =
     \<lparr> n_id = ''f'', n_type = Formula, n_label = ''F'',
       n_data = \<lparr> d_value = Undefined, d_confidence = None, d_weight = None,
                  d_parameters = Some [(''expression'', JStr ''eval(1)'')], d_state = None \<rparr>,
       n_custom_type = None, n_extensions = None \<rparr>"

definition unsafe_form :: FormFile where
  "unsafe_form =
     \<lparr> f_metadata = [(''id'', JStr ''unsafe'')], f_nodes = [unsafe_node], f_relations = [],
       f_execution = None, f_extensions = None \<rparr>"

definition plain_node :: "NodeType \<Rightarrow> string \<Rightarrow> jsval \<Rightarrow> FormNode" where
  "plain_node t i v =
     \<lparr> n_id = i, n_type = t, n_label = i,
       n_data = \<lparr> d_value = v, d_confidence = None, d_weight = None, d_parameters = None, d_state = None \<rparr>,
       n_custom_type = None, n_extensions = None \<rparr>"

definition plain_relation :: "RelationType \<Rightarrow> string \<Rightarrow> string \<Rightarrow> string \<Rightarrow> FormRelation" where
  "plain_relation t i src tgt =
     \<lparr> r_id = i, r_type = t, r_source = src, r_target = tgt, r_strength = None,
       r_bidirectional = None, r_conditions = None, r_extensions = None \<rparr>"

text \<open>
  Ten concept nodes \<open>n0\<close> .. \<open>n9\<close> on a ring, each influencing the next two: one
  strongly connected component of ten nodes, with average branching 2.
\<close>

definition ring_names :: "string list" where
  "ring_names = [''n0'', ''n1'', ''n2'', ''n3'', ''n4'', ''n5'', ''n6'', ''n7'', ''n8'', ''n9'']"

definition ring_form :: FormFile where
  "ring_form =
     \<lparr> f_metadata = [(''id'', JStr ''ring'')],
       f_nodes = map (\<lambda>i. plain_node Concept i (JNum 1)) ring_names,
       f_relations =
         concat (map (\<lambda>k. [plain_relation Influences (''a'' @ ring_names ! k)
                              (ring_names ! k) (ring_names ! ((k + 1) mod 10)),
                            plain_relation Influences (''b'' @ ring_names ! k)
                              (ring_names ! k) (ring_names ! ((k + 2) mod 10))])
                     [0..<10]),
       f_execution = None, f_extensions = None \<rparr>"

text \<open>Two concepts feeding a third, the first through a relation of strength 0.\<close>

definition weight_form :: FormFile where
  "weight_form =
     \<lparr> f_metadata = [(''id'', JStr ''weights'')],
       f_nodes = [plain_node Concept ''a'' (JNum 10), plain_node Concept ''b'' (JNum 20),
                  plain_node Concept ''c'' Undefined],
       f_relations = [(plain_relation Influences ''r1'' ''a'' ''c'')\<lparr>r_strength := Some 0\<rparr>,
                      (plain_relation Influences ''r2'' ''b'' ''c'')\<lparr>r_strength := Some 1\<rparr>],
       f_execution = None, f_extensions = None \<rparr>"

text \<open>
  A host whose clock stands still and whose \<open>Math.random()\<close> gives another number at
  each interaction, as that of any real host does.
\<close>

definition random_host :: runtime where
  "random_host =
     \<lparr> date_now = (\<lambda>k. 0),
       new_function = (\<lambda>k keys vals body.
          if body = ''return Math.random()'' \<and> map_of (zip keys vals) ''Math'' = Some Math_object
          then Inr (JNum (1 / (2 + real k))) else Inl ''ReferenceError''),
       json_text = (\<lambda>v. ''0''),
       to_string = (\<lambda>v. ''?''),
       relational = (\<lambda>op a b. False),
       arithmetic = (\<lambda>op a b. Undefined),
       eval_logic = (\<lambda>logic vals. JBool False),
       call_function = (\<lambda>f k node graph st. Inl ''evaluator is not a function'') \<rparr>"

definition random_node :: FormNode where
  "random_node = (plain_node Formula ''f'' Undefined)
     \<lparr>n_data := \<lparr> d_value = Undefined, d_confidence = None, d_weight = None,
                  d_parameters = Some [(''expression'', JStr ''Math.random()'')], d_state = None \<rparr>\<rparr>"

definition random_form :: FormFile where
  "random_form =
     \<lparr> f_metadata = [(''id'', JStr ''random'')], f_nodes = [random_node], f_relations = [],
       f_execution = None, f_extensions = None \<rparr>"

text \<open>
  Hosts for the examples below. \<open>quiet_host\<close>: the clock stands still, \<open>String\<close>
  prints natural numbers in decimal, nothing else is available. \<open>jump_host\<close>: the
  clock reads 0 at the first four interactions and 1000 from then on. \<open>late_host\<close>:
  100 ms pass between two interactions.
\<close>

function show_nat :: "nat \<Rightarrow> string" where
  "show_nat n = (if n < 10 then [char_of (48 + n)] else show_nat (n div 10) @ [char_of (48 + n mod 10)])"
  by pat_completeness auto
termination by (relation "measure id") auto

declare show_nat.simps [simp del]

definition show_number :: "jsval \<Rightarrow> string" where
  "show_number v =
     (case v of
        JNum r \<Rightarrow> (if r \<ge> 0 \<and> r = of_int \<lfloor>r\<rfloor> then show_nat (nat \<lfloor>r\<rfloor>) else ''?'')
      | _ \<Rightarrow> ''?'')"

definition quiet_host :: runtime where
  "quiet_host =
     \<lparr> date_now = (\<lambda>k. 0),
       new_function = (\<lambda>k keys vals body. Inl ''ReferenceError''),
       json_text = (\<lambda>v. ''0''),
       to_string = show_number,
       relational = (\<lambda>op a b. False),
       arithmetic = (\<lambda>op a b. Undefined),
       eval_logic = (\<lambda>logic vals. JBool False),
       call_function = (\<lambda>f k node graph st. Inl ''evaluator is not a function'') \<rparr>"



text \<open>The graph that compile gives for a document (compile runs out of fuel on none).\<close>

definition empty_graph :: FormGraph where
  "empty_graph =
     \<lparr> g_metadata = [], g_nodes = [], g_relations = [], adjacencyList = [], reverseAdjacencyList = [],
       g_execution = \<lparr> entry_points = None, exit_points = None, max_iterations = None,
                       timeout = None, mode = None \<rparr>,
       g_extensions = [] \<rparr>"

definition compiled :: "FormFile \<Rightarrow> FormGraph" where
  "compiled form = (case compile ''2024-01-01T00:00:00.000Z'' form of Some g \<Rightarrow> g | None \<Rightarrow> empty_graph)"

text \<open>
  A condition node whose only predecessor is itself, through a relation that is active
  when the value is false: its value alternates at every pass. At most five passes.
\<close>

definition flip_form :: FormFile where
  "flip_form =
     \<lparr> f_metadata = [(''id'', JStr ''flip'')],
       f_nodes = [plain_node Condition ''c'' Undefined],
       f_relations = [(plain_relation Influences ''r'' ''c'' ''c'')
                        \<lparr>r_conditions := Some [\<lparr> c_field = ''data.value'', c_operator = ''eq'',
                                                  c_value = JBool False \<rparr>]\<rparr>],
       f_execution = Some \<lparr> entry_points = None, exit_points = None, max_iterations = Some 5,
                            timeout = None, mode = Some Sequential \<rparr>,
       f_extensions = None \<rparr>"

text \<open>A formula node without an expression: its evaluation fails at every pass.\<close>

definition broken_form :: FormFile where
  "broken_form =
     \<lparr> f_metadata = [(''id'', JStr ''broken'')],
       f_nodes = [plain_node Formula ''f'' Undefined],
       f_relations = [],
       f_execution = Some \<lparr> entry_points = None, exit_points = None, max_iterations = None,
                            timeout = None, mode = Some Sequential \<rparr>,
       f_extensions = None \<rparr>"


text \<open>
  One concept with a stored value, at its fixed point from the start, and at most one
  pass. \<open>capped_broken_form\<close> is \<open>broken_form\<close> with at most one pass.
\<close>

definition stable_form :: FormFile where
  "stable_form =
     \<lparr> f_metadata = [(''id'', JStr ''stable'')],
       f_nodes = [plain_node Concept ''a'' (JNum 1)],
       f_relations = [],
       f_execution = Some \<lparr> entry_points = None, exit_points = None, max_iterations = Some 1,
                            timeout = None, mode = Some Sequential \<rparr>,
       f_extensions = None \<rparr>"

definition capped_broken_form :: FormFile where
  "capped_broken_form =
     broken_form\<lparr>f_execution := Some \<lparr> entry_points = None, exit_points = None, max_iterations = Some 1,
                                          timeout = None, mode = Some Sequential \<rparr>\<rparr>"

section \<open>Validation of formula expressions\<close>

text \<open>
  Claim C1 says that a document with a formula node whose expression holds one of the
  tokens eval, exec, import, require, process, fs is rejected by \<open>validate\<close> with a
  logic error, whether the expression is in \<open>data.value\<close> or in
  \<open>parameters.expression\<close> / \<open>parameters.formula\<close>. The validator reads only
  \<open>data.value\<close>: the document \<open>unsafe_form\<close>, whose single formula node carries
  \<open>eval(1)\<close> in \<open>parameters.expression\<close> (the field the executor evaluates), passes
  with \<open>valid = true\<close> and no error at all.
\<close>

theorem validate_accepts_unsafe_parameters_expression:
  "validate (\<lambda>d. None) unsafe_form =
     Inr \<lparr> valid = True, errors = [],
           metadata = \<lparr> nodeCount = 1, relationCount = 0, entryPoints = [], exitPoints = [] \<rparr> \<rparr>"
  by (simp add: validate_def unsafe_form_def unsafe_node_def validateLogicalConsistency_def
      detectCycles_def dependency_adjacency_def cc_fuel_def validateReferences_def
      operator_errors_def map_get_list_def Let_def)

section \<open>Defaults assigned by compile\<close>

text \<open>
  Claim C8 says that compile assigns the defaults (confidence 1.0, weight 1.0, state
  active; strength 1.0, bidirectional false) exactly when the field is absent, and leaves
  every explicit value unchanged, an explicit confidence 0 or weight 0 included. The
  node of \<open>zero_form\<close> has the explicit confidence 0 and weight 0; in the compiled
  graph both are 1: the test \<open>!node.data.confidence\<close> also holds for zero, where the
  relation fields are tested with \<open>=== undefined\<close>.
\<close>

theorem compile_overwrites_explicit_zero:
  "map_option (\<lambda>g. map (\<lambda>(k, node). (k, d_confidence (n_data node), d_weight (n_data node))) (g_nodes g))
     (compile timestamp zero_form) = Some [(''a'', Some 1, Some 1)]"
  by (simp add: compile_def zero_form_def zero_node_def compile_node_def not_number_def
      buildAdjacencyLists_def calculateComplexity_def estimateCycleCount_def Let_def)

section \<open>The expression evaluator\<close>

text \<open>
  Claim C2 says that evaluating an accepted expression twice with the same expression
  and context gives the same output, with no access to wall-clock time, random numbers
  or external state. The safety check of \<open>evaluateExpression\<close> is the character
  whitelist alone: it accepts \<open>Math.random()\<close>, \<open>Date.now()\<close> and
  \<open>process.exit()\<close>, and \<open>createSandbox\<close> binds the whole \<open>Math\<close> namespace. The
  formula node of \<open>random_form\<close>, evaluated twice in the same state on a host whose
  \<open>Math.random()\<close> varies, gives two different values.
\<close>

theorem formula_evaluation_depends_on_host_state:
  "safePattern ''Math.random()'' \<and> safePattern ''Date.now()'' \<and> safePattern ''process.exit()''
   \<and> map_option (\<lambda>g. (fst (evaluateFormula random_host g [(''f'', Null)] 0 random_node),
                       fst (evaluateFormula random_host g [(''f'', Null)] 3 random_node)))
        (compile ts random_form)
      = Some (Inr (JNum (1 / 3)), Inr (JNum (1 / 6)))"
  by code_simp

section \<open>Strongly connected components in hybrid mode\<close>

lemma components_are_singletons: "c \<in> set (findStronglyConnectedComponents g) \<Longrightarrow> length c = 1"
  by (auto simp: findStronglyConnectedComponents_def)

lemma ring_compilation:
  "map_option (\<lambda>g. (length (g_nodes g), js_get (g_extensions g) ''compilation'')) (compile ts ring_form) =
     Some (10, JObj [(''timestamp'', JStr ts), (''nodeCount'', JNum 10), (''relationCount'', JNum 20),
                     (''complexity'', JObj [(''maxDepth'', JNum 5), (''avgBranching'', JNum 2),
                                            (''cycleCount'', JNum 3)])])"
  by code_simp

lemma ring_runs_hybrid:
  assumes "compile ts ring_form = Some g"
  shows "executeAdaptive rt g x = executeHybrid rt g x"
  using ring_compilation[of ts] assms
  by (simp add: executeAdaptive_def js_member_def js_get_def js_or_def js_rel_def js_strict_eq_def)

text \<open>
  Claim C5 says that hybrid mode identifies the strongly connected components (Tarjan)
  and iterates every component of more than one node up to ten rounds. The ten nodes of
  \<open>ring_form\<close> are one component, and the compiled graph has ten nodes, average
  branching 2 and a non-zero cycle count, so the adaptive mode runs it in hybrid mode
  (\<open>ring_runs_hybrid\<close>). \<open>findStronglyConnectedComponents\<close> returns ten components of
  one node each; as it does so on every graph (\<open>components_are_singletons\<close>),
  \<open>processCycle\<close> is never called.
\<close>

theorem hybrid_components_are_single_nodes:
  "map_option (\<lambda>g. (findStronglyConnectedComponents g, length (g_nodes g),
                     estimateCycleCount (adjacencyList g), avgBranching (adjacencyList g) = 2))
     (compile ts ring_form)
   = Some ([[''n0''], [''n1''], [''n2''], [''n3''], [''n4''], [''n5''], [''n6''], [''n7''], [''n8''], [''n9'']],
           10, Some 3, True)"
  by code_simp

section \<open>Concept nodes\<close>

text \<open>
  Claim C7 says that a concept node with predecessors yields the average of the numeric
  predecessor values, each weighted by the strength of the relation from the predecessor.
  In \<open>weight_form\<close> the relation from \<open>a\<close> (value 10) has the strength 0 and that from
  \<open>b\<close> (value 20) the strength 1, both kept by compile; the weighted average is 20.
  \<open>evaluateConcept\<close> yields 15: \<open>relation?.strength || 1.0\<close> turns the strength 0
  into the weight 1.
\<close>

theorem evaluateConcept_zero_strength_counts_as_one:
  "map_option (\<lambda>g. (map (\<lambda>(k, r). (r_source r, r_strength r)) (g_relations g),
                     evaluateConcept g [(''a'', JNum 10), (''b'', JNum 20), (''c'', JNum 0)]
                       (plain_node Concept ''c'' Undefined)))
     (compile ts weight_form)
   = Some ([(''a'', Some 0), (''b'', Some 1)], JNum 15)"
  by code_simp

section \<open>Optimization is idempotent\<close>

lemma sort_key_twice: "sort_key f (sort_key f xs) = sort_key f xs"
  by (rule sort_key_id_if_sorted) (rule sorted_sort_key)

lemma findRelation_relations:
  "g_relations g' = g_relations g \<Longrightarrow> findRelation g' a b = findRelation g a b"
  by (simp add: findRelation_def)

lemma strip_node_defaults_idem: "strip_node_defaults (strip_node_defaults node) = strip_node_defaults node"
  by (simp add: strip_node_defaults_def Let_def)

lemma strip_relation_defaults_idem:
  "strip_relation_defaults (strip_relation_defaults r) = strip_relation_defaults r"
  by (simp add: strip_relation_defaults_def Let_def)

lemma strip_confidence_idem: "strip_confidence (strip_confidence node) = strip_confidence node"
  by (simp add: strip_confidence_def)

lemma optimizeForSpeed_twice:
  "optimizeForSpeed t2 (optimizeForSpeed t1 g) = optimizeForSpeed t2 g"
proof -
  have rel: "\<And>a b. findRelation (optimizeForSpeed t1 g) a b = findRelation g a b"
    by (rule findRelation_relations) (simp add: optimizeForSpeed_def)
  show ?thesis
    unfolding optimizeForSpeed_def[of t2 "optimizeForSpeed t1 g"] rel
    by (simp add: optimizeForSpeed_def comp_def case_prod_unfold sort_key_twice)
qed

lemma optimizeForMemory_twice:
  "optimizeForMemory t2 (optimizeForMemory t1 g) = optimizeForMemory t2 g"
  by (simp add: optimizeForMemory_def comp_def case_prod_unfold
      strip_node_defaults_idem strip_relation_defaults_idem)

lemma optimizeBalanced_twice:
  "optimizeBalanced t2 (optimizeBalanced t1 g) = optimizeBalanced t2 g"
proof -
  have rel: "\<And>a b. findRelation (optimizeBalanced t1 g) a b = findRelation g a b"
    by (rule findRelation_relations) (simp add: optimizeBalanced_def optimizeForSpeed_def Let_def)
  show ?thesis
    unfolding optimizeBalanced_def[of t2 "optimizeBalanced t1 g"] Let_def
      optimizeForSpeed_def[of t2 "optimizeBalanced t1 g"] rel
    by (simp add: optimizeBalanced_def optimizeForSpeed_def Let_def comp_def case_prod_unfold
        sort_key_twice strip_confidence_idem)
qed

text \<open>
  Claim C9 says that for every graph \<open>g\<close> and every mode \<open>m\<close> among speed, memory and
  balanced, \<open>optimize(optimize(g, m), m) = optimize(g, m)\<close>. Every call of an
  optimization writes \<open>new Date().toISOString()\<close> into the tag
  \<open>extensions.optimization\<close>. Optimizing the graph of \<open>zero_form\<close> for speed at one
  millisecond and optimizing the result again at the next gives a graph that is not the
  result of the first call: the timestamps of the tags differ.
\<close>

theorem second_optimization_changes_the_timestamp:
  "js_get (g_extensions (optimizeForExecution ''2024-01-01T00:00:00.001Z'' (compiled zero_form) Speed))
      ''optimization''
     = JObj [(''type'', JStr ''speed''), (''applied'', JBool True),
             (''timestamp'', JStr ''2024-01-01T00:00:00.001Z'')]
   \<and> js_get (g_extensions (optimizeForExecution ''2024-01-01T00:00:00.002Z''
                (optimizeForExecution ''2024-01-01T00:00:00.001Z'' (compiled zero_form) Speed) Speed))
      ''optimization''
     = JObj [(''type'', JStr ''speed''), (''applied'', JBool True),
             (''timestamp'', JStr ''2024-01-01T00:00:00.002Z'')]
   \<and> optimizeForExecution ''2024-01-01T00:00:00.002Z''
       (optimizeForExecution ''2024-01-01T00:00:00.001Z'' (compiled zero_form) Speed) Speed
     \<noteq> optimizeForExecution ''2024-01-01T00:00:00.001Z'' (compiled zero_form) Speed"
proof -
  let ?g1 = "optimizeForExecution ''2024-01-01T00:00:00.001Z'' (compiled zero_form) Speed"
  let ?g2 = "optimizeForExecution ''2024-01-01T00:00:00.002Z'' ?g1 Speed"
  have t1: "js_get (g_extensions ?g1) ''optimization''
     = JObj [(''type'', JStr ''speed''), (''applied'', JBool True),
             (''timestamp'', JStr ''2024-01-01T00:00:00.001Z'')]"
    by (simp add: optimizeForExecution_def optimizeForSpeed_def optimization_tag_def js_get_def update_conv')
  have t2: "js_get (g_extensions ?g2) ''optimization''
     = JObj [(''type'', JStr ''speed''), (''applied'', JBool True),
             (''timestamp'', JStr ''2024-01-01T00:00:00.002Z'')]"
    by (simp add: optimizeForExecution_def optimizeForSpeed_def optimization_tag_def js_get_def update_conv')
  have "js_get (g_extensions ?g2) ''optimization'' \<noteq> js_get (g_extensions ?g1) ''optimization''"
    unfolding t1 t2 by simp
  then have "?g2 \<noteq> ?g1" by auto
  with t1 t2 show ?thesis by simp
qed

text \<open>
  Claim C9 as amended: for every graph \<open>g\<close> and every mode \<open>m\<close> among speed, memory and
  balanced, optimizing twice equals optimizing once up to the timestamp of the
  optimization tag, which is that of the last call. The time of a call is a parameter
  here: optimizing at \<open>t2\<close> a graph already optimized at \<open>t1\<close> gives the graph that
  optimizing \<open>g\<close> at \<open>t2\<close> gives, for all \<open>t1\<close> and \<open>t2\<close>; adjacency lists, nodes,
  relations and the rest of the tag are those of a single application.
\<close>

theorem optimize_twice_is_optimize_once:
  "optimizeForExecution t2 (optimizeForExecution t1 g m) m = optimizeForExecution t2 g m"
  by (cases m) (simp_all add: optimizeForExecution_def optimizeForSpeed_twice
      optimizeForMemory_twice optimizeBalanced_twice)

section \<open>How an execution ends\<close>

text \<open>
  Claim C3 says that every call to execute ends with success, or with an
  \<open>execution_timeout\<close> error, or with an \<open>infinite_loop\<close> error when the counter
  reaches \<open>max_iterations\<close> without reaching a fixed point, or with the list of node
  errors. Run on \<open>flip_form\<close>, whose value alternates for ever, the executor stops
  after five passes with \<open>success = false\<close>, five trace steps and
  \<open>iterations_completed = 5\<close>, but the only error of the result has the type
  \<open>execution_error\<close>: \<open>execute\<close> records whatever the scheduler throws under that
  type, the timeout too. The type \<open>ExecutionError\<close> of the program itself lists
  \<open>timeout\<close> and \<open>infinite_loop\<close> and has no \<open>execution_error\<close>; \<open>addError\<close> stores
  its argument through a cast. Run on \<open>stable_form\<close>, whose single allowed pass changes
  nothing, the executor fails the same way although the fixed point is reached: the test
  \<open>currentIteration >= maxIterations\<close> after the loop does not ask why the loop ended.
\<close>

theorem iteration_cap_is_an_execution_error:
  "map_sum id (\<lambda>r. (success r, map_option (map (\<lambda>e. (x_type e, x_message e))) (res_errors r),
                      iterationsCompleted (metrics r), length (res_trace r)))
     (execute quiet_host (compiled flip_form) [] None)
   = Inr (False, Some [(Execution_error, ''Maximum iterations (5) exceeded'')], 5, 5)
   \<and> fst (run_pass quiet_host (compiled stable_form) SequentialS
             (initializeExecution quiet_host (compiled stable_form) [])) = Inr False
   \<and> map_sum id (\<lambda>r. (success r, map_option (map (\<lambda>e. (x_type e, x_message e))) (res_errors r),
                        iterationsCompleted (metrics r), finalState r))
       (execute quiet_host (compiled stable_form) [] None)
     = Inr (False, Some [(Execution_error, ''Maximum iterations (1) exceeded'')], 1, [(''a'', JNum 1)])"
proof -
  have "map_sum id (\<lambda>r. (success r, map_option (map (\<lambda>e. (x_type e, x_message e))) (res_errors r),
                      iterationsCompleted (metrics r), length (res_trace r)))
     (execute quiet_host (compiled flip_form) [] None)
   = Inr (False, Some [(Execution_error, ''Maximum iterations (5) exceeded'')], 5, 5)"
    by code_simp
  moreover have "fst (run_pass quiet_host (compiled stable_form) SequentialS
             (initializeExecution quiet_host (compiled stable_form) [])) = Inr False"
    by code_simp
  moreover have "map_sum id (\<lambda>r. (success r, map_option (map (\<lambda>e. (x_type e, x_message e))) (res_errors r),
                        iterationsCompleted (metrics r), finalState r))
       (execute quiet_host (compiled stable_form) [] None)
     = Inr (False, Some [(Execution_error, ''Maximum iterations (1) exceeded'')], 1, [(''a'', JNum 1)])"
    by code_simp
  ultimately show ?thesis by simp
qed

section \<open>Errors of a successful execution\<close>

text \<open>
  Claim C10 says that an execution that terminates at a fixed point returns
  success=true and no error list, even when node errors were recorded. The formula node
  of \<open>broken_form\<close> has no expression: every pass records a node error and changes
  nothing, so the first pass is a fixed point. With the default cap of 1000 passes the
  result is as the claim says. With \<open>max_iterations = 1\<close> (\<open>capped_broken_form\<close>) the
  same pass is the last allowed one and the executor throws \<open>Maximum iterations (1)
  exceeded\<close>, although nothing was exceeded: the result has success=false and an error
  list with the node error and the error of the scheduler.
\<close>

theorem fixed_point_at_the_cap_is_a_failure:
  "fst (run_pass quiet_host (compiled capped_broken_form) SequentialS
          (initializeExecution quiet_host (compiled capped_broken_form) [])) = Inr False
   \<and> map_sum id (\<lambda>r. (success r, map_option (map (\<lambda>e. (x_type e, x_message e))) (res_errors r),
                        iterationsCompleted (metrics r), finalState r))
       (execute quiet_host (compiled capped_broken_form) [] None)
     = Inr (False, Some [(Node_execution, ''Formula node f missing expression''),
                         (Execution_error, ''Maximum iterations (1) exceeded'')], 1, [(''f'', Null)])
   \<and> map_sum id (\<lambda>r. (success r, res_errors r, iterationsCompleted (metrics r), finalState r))
       (execute quiet_host (compiled broken_form) [] None)
     = Inr (True, None, 1, [(''f'', Null)])"
proof -
  have "fst (run_pass quiet_host (compiled capped_broken_form) SequentialS
          (initializeExecution quiet_host (compiled capped_broken_form) [])) = Inr False"
    by code_simp
  moreover have "map_sum id (\<lambda>r. (success r, map_option (map (\<lambda>e. (x_type e, x_message e))) (res_errors r),
                        iterationsCompleted (metrics r), finalState r))
       (execute quiet_host (compiled capped_broken_form) [] None)
     = Inr (False, Some [(Node_execution, ''Formula node f missing expression''),
                         (Execution_error, ''Maximum iterations (1) exceeded'')], 1, [(''f'', Null)])"
    by code_simp
  moreover have "map_sum id (\<lambda>r. (success r, res_errors r, iterationsCompleted (metrics r), finalState r))
       (execute quiet_host (compiled broken_form) [] None)
     = Inr (True, None, 1, [(''f'', Null)])"
    by code_simp
  ultimately show ?thesis by simp
qed

section \<open>Where the timeout is checked\<close>




end
